theory Spec2Isabelle
  imports Complex_Main "HOL-Library.Log_Nat" "HOL-Library.Word" "HOL-Library.Sublist"
begin

unbundle bit_operations_syntax

section \<open>Floating-point numbers\<close>

text \<open>
  The server computes with IEEE binary floating point (Python \<^verbatim>\<open>float\<close> and numpy
  \<^verbatim>\<open>float64\<close> with 53 significant bits, numpy \<^verbatim>\<open>float32\<close> with 24). A finite float
  is modelled by the rational number it denotes; an arithmetic operation computes the
  exact rational result and rounds it to the nearest number with \<open>p\<close> significant bits,
  ties to the even significand. Exponent range (overflow, subnormals) and the special
  values NaN and infinity are outside the model: the timestamps and audio samples the
  program handles are finite and far from both ends of the range.
\<close>

definition float_exp :: "rat \<Rightarrow> int" where
  \<comment> \<open>for \<open>x \<noteq> 0\<close>, the \<open>k\<close> with \<open>2 powi k \<le> \<bar>x\<bar> < 2 powi (k + 1)\<close>\<close>
  "float_exp x =
     (if 1 \<le> \<bar>x\<bar> then bitlen \<lfloor>\<bar>x\<bar>\<rfloor> - 1 else - bitlen (\<lceil>1 / \<bar>x\<bar>\<rceil> - 1))"

definition round_half_even :: "rat \<Rightarrow> int" where
  "round_half_even x =
     (let f = \<lfloor>x\<rfloor>; r = x - of_int f
      in if r < 1 / 2 then f else if 1 / 2 < r then f + 1 else if even f then f else f + 1)"

definition fl :: "nat \<Rightarrow> rat \<Rightarrow> rat" where
  \<comment> \<open>rounding to \<open>p\<close> significant bits\<close>
  "fl p x =
     (if x = 0 then 0
      else let e = float_exp x - (int p - 1)
           in of_int (round_half_even (x / 2 powi e)) * 2 powi e)"

abbreviation fl64 :: "rat \<Rightarrow> rat" where
  "fl64 \<equiv> fl 53"

abbreviation fl32 :: "rat \<Rightarrow> rat" where
  "fl32 \<equiv> fl 24"

definition py_int_of_float :: "rat \<Rightarrow> int" where
  \<comment> \<open>Python's \<^verbatim>\<open>int(x)\<close> on a float: truncation towards zero\<close>
  "py_int_of_float x = (if 0 \<le> x then \<lfloor>x\<rfloor> else \<lceil>x\<rceil>)"

section \<open>Segments and speaker assignment\<close>

text \<open>
  The dictionaries that \<^verbatim>\<open>run_whisper\<close> and \<^verbatim>\<open>run_diarization\<close> build have fixed keys,
  so they are records. A recognition segment has no \<^verbatim>\<open>"speaker"\<close> key until
  \<^verbatim>\<open>assign_speakers\<close> stores one: the field is optional.
\<close>

record segment =
  seg_start :: rat
  seg_end :: rat
  seg_text :: string
  seg_speaker :: "string option"

record diar_segment =
  d_start :: rat
  d_end :: rat
  d_speaker :: string

definition DEFAULT_SPEAKER :: string where
  "DEFAULT_SPEAKER = ''SPEAKER_00''"

fun overlap :: "rat \<times> rat \<Rightarrow> rat \<times> rat \<Rightarrow> rat" where
  "overlap (a0, a1) (b0, b1) =
     (let l = max a0 b0; r = min a1 b1 in max 0 (fl64 (r - l)))"

text \<open>
  The inner loop of \<^verbatim>\<open>assign_speakers\<close> over the diarization segments, with its two
  variables \<^verbatim>\<open>best\<close> and \<^verbatim>\<open>best_ov\<close>.
\<close>

fun best_overlap :: "segment \<Rightarrow> diar_segment list \<Rightarrow> diar_segment option \<Rightarrow> rat
    \<Rightarrow> diar_segment option \<times> rat" where
  "best_overlap s [] best best_ov = (best, best_ov)"
| "best_overlap s (d # ds) best best_ov =
     (let ov = overlap (seg_start s, seg_end s) (d_start d, d_end d)
      in if ov > best_ov then best_overlap s ds (Some d) ov
         else best_overlap s ds best best_ov)"

definition assign_one :: "diar_segment list \<Rightarrow> segment \<Rightarrow> segment" where
  "assign_one spk s =
     (case fst (best_overlap s spk None 0) of
        Some best \<Rightarrow> s\<lparr>seg_speaker := Some (d_speaker best)\<rparr>
      | None \<Rightarrow> s\<lparr>seg_speaker := Some DEFAULT_SPEAKER\<rparr>)"

definition assign_speakers :: "segment list \<Rightarrow> diar_segment list \<Rightarrow> segment list" where
  "assign_speakers stt spk =
     (if spk = [] then map (\<lambda>s. s\<lparr>seg_speaker := Some DEFAULT_SPEAKER\<rparr>) stt
      else map (assign_one spk) stt)"

section \<open>WAV files\<close>

text \<open>
  \<^verbatim>\<open>pcm16_to_wav_bytes\<close> and \<^verbatim>\<open>wav_bytes_to_float_np\<close> write and read the file through
  the standard library's \<^verbatim>\<open>wave\<close> module on an in-memory file. What that module does
  with the bytes is modelled here, call by call: a file is the list of its bytes. The
  module is the one of Python 3.11, the interpreter of the project's environment
  (\<^verbatim>\<open>src/app/new_main.py\<close> names its \<^verbatim>\<open>python3.11\<close> directory).
\<close>

type_synonym byte = "8 word"
type_synonym bytes = "byte list"

text \<open>
  Exceptions are values. \<open>HTTPException\<close> carries its status code and detail,
  \<open>WaveError\<close> (\<^verbatim>\<open>wave.Error\<close>) its message, \<open>StructError\<close> is \<^verbatim>\<open>struct.error\<close>;
  \<open>OtherError\<close> stands for an exception of the recognition engine or of the
  framework, with its text.
\<close>

datatype exn =
    HTTPException nat string
  | WebSocketDisconnect
  | WaveError string
  | EOFError
  | RuntimeError
  | StructError
  | ValueError
  | ZeroDivisionError
  | OtherError string

definition ascii :: "string \<Rightarrow> bytes" where
  "ascii s = map of_char s"

text \<open>
  \<^verbatim>\<open>struct.pack\<close> of one unsigned little-endian field of \<open>n\<close> bytes (\<^verbatim>\<open>'<H'\<close> and
  \<^verbatim>\<open>'<L'\<close>): \<^verbatim>\<open>struct.error\<close> when the value does not fit.
\<close>

fun le_bytes :: "nat \<Rightarrow> int \<Rightarrow> bytes" where
  "le_bytes 0 v = []"
| "le_bytes (Suc n) v = word_of_int v # le_bytes n (v div 256)"

definition pack_uint :: "nat \<Rightarrow> int \<Rightarrow> exn + bytes" where
  "pack_uint n v =
     (if 0 \<le> v \<and> v < 256 ^ n then Inr (le_bytes n v) else Inl StructError)"

fun unpack_uint :: "bytes \<Rightarrow> nat" where
  "unpack_uint [] = 0"
| "unpack_uint (b # bs) = unat b + 256 * unpack_uint bs"

subsection \<open>Writing a WAV file\<close>

text \<open>
  \<open>write_at\<close> overwrites the bytes of a buffer from a position on (seek and write).
  \<open>write_header\<close> is \<^verbatim>\<open>Wave_write._write_header\<close>: the 44 bytes of the header, all
  fields packed by one \<^verbatim>\<open>struct.pack\<close>, with the data length computed from whole frames;
  it returns that data length too. \<open>patchheader\<close> is \<^verbatim>\<open>Wave_write._patchheader\<close>, which
  writes the two length fields again when the bytes written are not that length.
\<close>

definition write_at :: "bytes \<Rightarrow> nat \<Rightarrow> bytes \<Rightarrow> bytes" where
  "write_at buf pos bs = take pos buf @ bs @ drop (pos + length bs) buf"

definition write_header :: "int \<Rightarrow> int \<Rightarrow> int \<Rightarrow> nat \<Rightarrow> exn + bytes \<times> int" where
  "write_header nchannels sampwidth framerate initlength =
     (let nframes = int initlength div (nchannels * sampwidth);
          datalength = nframes * nchannels * sampwidth
      in case pack_uint 4 (36 + datalength) of Inl e \<Rightarrow> Inl e | Inr form_length \<Rightarrow>
         case pack_uint 4 16 of Inl e \<Rightarrow> Inl e | Inr fmt_size \<Rightarrow>
         case pack_uint 2 1 of Inl e \<Rightarrow> Inl e | Inr format_tag \<Rightarrow>
         case pack_uint 2 nchannels of Inl e \<Rightarrow> Inl e | Inr channels \<Rightarrow>
         case pack_uint 4 framerate of Inl e \<Rightarrow> Inl e | Inr rate \<Rightarrow>
         case pack_uint 4 (nchannels * framerate * sampwidth) of Inl e \<Rightarrow> Inl e | Inr byte_rate \<Rightarrow>
         case pack_uint 2 (nchannels * sampwidth) of Inl e \<Rightarrow> Inl e | Inr block_align \<Rightarrow>
         case pack_uint 2 (sampwidth * 8) of Inl e \<Rightarrow> Inl e | Inr bits \<Rightarrow>
         case pack_uint 4 datalength of Inl e \<Rightarrow> Inl e | Inr data_length \<Rightarrow>
           Inr (ascii ''RIFF'' @ form_length @ ascii ''WAVE'' @ ascii ''fmt '' @ fmt_size
                  @ format_tag @ channels @ rate @ byte_rate @ block_align @ bits
                  @ ascii ''data'' @ data_length,
                datalength))"

definition patchheader :: "bytes \<Rightarrow> int \<Rightarrow> exn + bytes" where
  "patchheader buf datawritten =
     (case pack_uint 4 (36 + datawritten) of Inl e \<Rightarrow> Inl e | Inr form_length \<Rightarrow>
      case pack_uint 4 datawritten of Inl e \<Rightarrow> Inl e | Inr data_length \<Rightarrow>
        Inr (write_at (write_at buf 4 form_length) 40 data_length))"

text \<open>
  \<^verbatim>\<open>pcm16_to_wav_bytes\<close>: one channel, two bytes per sample, the given rate, then
  \<^verbatim>\<open>writeframes(pcm)\<close>, and the whole buffer is returned. \<^verbatim>\<open>setframerate\<close> raises for a
  rate that is not positive; leaving the \<^verbatim>\<open>with\<close> block then closes the writer, which
  raises \<^verbatim>\<open>wave.Error\<close> in its turn, with the message given here.
\<close>

definition pcm16_to_wav_bytes :: "bytes \<Rightarrow> int \<Rightarrow> exn + bytes" where
  "pcm16_to_wav_bytes pcm sample_rate =
     (if sample_rate \<le> 0 then Inl (WaveError ''sampling rate not specified'')
      else case write_header 1 2 sample_rate (length pcm) of
        Inl e \<Rightarrow> Inl e
      | Inr (header, datalength) \<Rightarrow>
          let buf = header @ pcm; datawritten = int (length pcm)
          in if datalength \<noteq> datawritten then patchheader buf datawritten else Inr buf)"

subsection \<open>Reading a WAV file\<close>

text \<open>
  \<^verbatim>\<open>wave.open\<close> reads the file as a RIFF chunk (a \<^verbatim>\<open>_Chunk\<close> object over the file)
  and the chunks inside it (\<^verbatim>\<open>_Chunk\<close> objects over the RIFF chunk). A \<open>riff\<close> is the
  state of the outer chunk: the bytes of the file after its 8-byte header, the size the
  header declares, and the number of bytes read so far, which is also the position in
  the file. \<open>riff_read\<close> is its \<^verbatim>\<open>read(n)\<close>: at most \<open>n\<close> bytes and never beyond the
  declared size or the end of the file, and one padding byte more after the last byte
  of a chunk of odd size. \<open>riff_seek_cur\<close> is its \<^verbatim>\<open>seek(n, 1)\<close>, which raises
  \<^verbatim>\<open>RuntimeError\<close> beyond the declared size.
\<close>

record riff =
  r_body :: bytes
  r_chunksize :: nat
  r_size_read :: nat

definition riff_read :: "riff \<Rightarrow> nat \<Rightarrow> bytes \<times> riff" where
  "riff_read r n =
     (if r_size_read r \<ge> r_chunksize r then ([], r)
      else let n = min n (r_chunksize r - r_size_read r);
               data = take n (drop (r_size_read r) (r_body r));
               size_read = r_size_read r + length data;
               dummy = (if size_read = r_chunksize r \<and> odd (r_chunksize r)
                        then take 1 (drop size_read (r_body r)) else [])
           in (data, r\<lparr>r_size_read := size_read + length dummy\<rparr>))"

definition riff_seek_cur :: "riff \<Rightarrow> nat \<Rightarrow> exn + riff" where
  "riff_seek_cur r n =
     (let pos = n + r_size_read r
      in if pos > r_chunksize r then Inl RuntimeError else Inr (r\<lparr>r_size_read := pos\<rparr>))"

text \<open>
  An inner chunk: \<open>new_chunk\<close> is \<^verbatim>\<open>_Chunk.__init__\<close> (name and size, \<^verbatim>\<open>EOFError\<close>
  when either is cut short), \<open>chunk_read\<close> its \<^verbatim>\<open>read(n)\<close> and \<open>chunk_skip\<close> its
  \<^verbatim>\<open>skip()\<close>, which seeks the outer chunk to the end of this one.
\<close>

record chunk =
  chunkname :: bytes
  chunksize :: nat
  size_read :: nat

definition new_chunk :: "riff \<Rightarrow> exn + chunk \<times> riff" where
  "new_chunk r =
     (let (name, r) = riff_read r 4
      in if length name < 4 then Inl EOFError
         else let (sz, r) = riff_read r 4
              in if length sz < 4 then Inl EOFError
                 else Inr (\<lparr>chunkname = name, chunksize = unpack_uint sz, size_read = 0\<rparr>, r))"

definition chunk_read :: "chunk \<Rightarrow> riff \<Rightarrow> nat \<Rightarrow> bytes \<times> chunk \<times> riff" where
  "chunk_read c r n =
     (if size_read c \<ge> chunksize c then ([], c, r)
      else let n = min n (chunksize c - size_read c);
               (data, r) = riff_read r n;
               sr = size_read c + length data
           in if sr = chunksize c \<and> odd (chunksize c)
              then let (dummy, r) = riff_read r 1
                   in (data, c\<lparr>size_read := sr + length dummy\<rparr>, r)
              else (data, c\<lparr>size_read := sr\<rparr>, r))"

definition chunk_skip :: "chunk \<Rightarrow> riff \<Rightarrow> exn + riff" where
  "chunk_skip c r =
     riff_seek_cur r ((chunksize c + (if odd (chunksize c) then 1 else 0)) - size_read c)"

text \<open>
  \<^verbatim>\<open>Wave_read._read_fmt_chunk\<close>: the format tag, the channel count, the frame rate and
  the bits per sample, from which the sample width in bytes is \<open>(bits + 7) div 8\<close>.
  The only format tag it accepts is \<^verbatim>\<open>WAVE_FORMAT_PCM\<close>; for any other tag it raises
  \<^verbatim>\<open>wave.Error\<close>. (The message of that error is given without the tag it prints.)
\<close>

record fmt =
  f_nchannels :: nat
  f_sampwidth :: nat
  f_framerate :: nat
  f_framesize :: nat

definition WAVE_FORMAT_PCM :: nat where
  "WAVE_FORMAT_PCM = 0x0001"

definition read_fmt_chunk :: "chunk \<Rightarrow> riff \<Rightarrow> exn + fmt \<times> chunk \<times> riff" where
  "read_fmt_chunk c r =
     (let (hd14, c, r) = chunk_read c r 14
      in if length hd14 < 14 then Inl EOFError
         else let wFormatTag = unpack_uint (take 2 hd14);
                  nchannels = unpack_uint (take 2 (drop 2 hd14));
                  framerate = unpack_uint (take 4 (drop 4 hd14))
              in if wFormatTag = WAVE_FORMAT_PCM
                 then let (sw, c, r) = chunk_read c r 2
                      in if length sw < 2 then Inl EOFError
                         else let sampwidth = (unpack_uint sw + 7) div 8
                              in if sampwidth = 0 then Inl (WaveError ''bad sample width'')
                                 else if nchannels = 0
                                 then Inl (WaveError ''bad # of channels'')
                                 else Inr (\<lparr>f_nchannels = nchannels, f_sampwidth = sampwidth,
                                            f_framerate = framerate,
                                            f_framesize = nchannels * sampwidth\<rparr>, c, r)
                 else Inl (WaveError ''unknown format''))"

text \<open>
  The loop of \<^verbatim>\<open>Wave_read.initfp\<close> over the chunks, one iteration per \<open>chunk_step\<close>:
  a format chunk is read and skipped, the data chunk ends the loop (it needs a format
  chunk before it), any other chunk is skipped, and the end of the file ends the loop
  with an error. A \<open>wave_read\<close> is the reader that \<^verbatim>\<open>wave.open\<close> returns, positioned
  at the start of the data; \<open>f_nchannels\<close>, \<open>f_sampwidth\<close>, \<open>f_framerate\<close> and
  \<open>w_nframes\<close> are what \<^verbatim>\<open>getnchannels\<close>, \<^verbatim>\<open>getsampwidth\<close>, \<^verbatim>\<open>getframerate\<close> and
  \<^verbatim>\<open>getnframes\<close> return.
\<close>

record wave_read =
  w_fmt :: fmt
  w_nframes :: nat
  w_data_chunk :: chunk
  w_file :: riff

datatype loop_step = Done "exn + wave_read" | Continue "fmt option" riff

definition chunk_step :: "fmt option \<Rightarrow> riff \<Rightarrow> loop_step" where
  "chunk_step fmt_read r =
     (case new_chunk r of
        Inl e \<Rightarrow> Done (Inl (WaveError ''fmt chunk and/or data chunk missing''))
      | Inr (c, r) \<Rightarrow>
          if chunkname c = ascii ''fmt '' then
            (case read_fmt_chunk c r of
               Inl e \<Rightarrow> Done (Inl e)
             | Inr (f, c, r) \<Rightarrow>
                 (case chunk_skip c r of
                    Inl e \<Rightarrow> Done (Inl e)
                  | Inr r \<Rightarrow> Continue (Some f) r))
          else if chunkname c = ascii ''data'' then
            (case fmt_read of
               None \<Rightarrow> Done (Inl (WaveError ''data chunk before fmt chunk''))
             | Some f \<Rightarrow>
                 Done (Inr \<lparr>w_fmt = f, w_nframes = chunksize c div f_framesize f,
                            w_data_chunk = c, w_file = r\<rparr>))
          else
            (case chunk_skip c r of
               Inl e \<Rightarrow> Done (Inl e)
             | Inr r \<Rightarrow> Continue fmt_read r))"

text \<open>
  The loop ends: reading never moves the RIFF chunk backwards, and an iteration that
  continues has read the 8 bytes of a chunk header and stays within the declared size.
\<close>

lemma riff_read_mono:
  "riff_read r n = (d, r') \<Longrightarrow>
     r_chunksize r' = r_chunksize r \<and> r_size_read r + length d \<le> r_size_read r'"
  by (auto simp: riff_read_def Let_def split: if_splits)

lemma chunk_read_mono:
  "chunk_read c r n = (d, c', r') \<Longrightarrow>
     r_chunksize r' = r_chunksize r \<and> r_size_read r \<le> r_size_read r'"
  by (auto simp: chunk_read_def Let_def split: if_splits prod.splits dest!: riff_read_mono)

lemma new_chunk_progress:
  "new_chunk r = Inr (c, r') \<Longrightarrow>
     r_chunksize r' = r_chunksize r \<and> r_size_read r < r_size_read r'"
  by (auto simp: new_chunk_def Let_def split: if_splits prod.splits dest!: riff_read_mono)

lemma chunk_skip_mono:
  "chunk_skip c r = Inr r' \<Longrightarrow>
     r_chunksize r' = r_chunksize r \<and> r_size_read r \<le> r_size_read r'
     \<and> r_size_read r' \<le> r_chunksize r"
  by (auto simp: chunk_skip_def riff_seek_cur_def Let_def split: if_splits)

lemma read_fmt_chunk_mono:
  "read_fmt_chunk c r = Inr (f, c', r') \<Longrightarrow>
     r_chunksize r' = r_chunksize r \<and> r_size_read r \<le> r_size_read r'"
  by (auto simp: read_fmt_chunk_def Let_def
      split: if_splits prod.splits dest!: chunk_read_mono)

lemma chunk_step_progress:
  assumes "chunk_step fmt_read r = Continue fmt_read' r'"
  shows "r_chunksize r' = r_chunksize r \<and> r_size_read r < r_size_read r'
     \<and> r_size_read r' \<le> r_chunksize r"
  using assms
  by (auto simp: chunk_step_def split: sum.splits prod.splits if_splits option.splits
      dest!: new_chunk_progress read_fmt_chunk_mono chunk_skip_mono)

function chunk_loop :: "fmt option \<Rightarrow> riff \<Rightarrow> exn + wave_read" where
  "chunk_loop fmt_read r =
     (case chunk_step fmt_read r of
        Done res \<Rightarrow> res
      | Continue fmt_read' r' \<Rightarrow> chunk_loop fmt_read' r')"
  by pat_completeness auto
termination
proof (relation "measure (\<lambda>(f, r). r_chunksize r + 1 - r_size_read r)")
  show "wf (measure (\<lambda>(f, r). r_chunksize r + 1 - r_size_read r))"
    by simp
next
  fix fmt_read r fmt_read' r'
  assume "chunk_step fmt_read r = Continue fmt_read' r'"
  from chunk_step_progress [OF this]
  show "((fmt_read', r'), (fmt_read, r)) \<in> measure (\<lambda>(f, r). r_chunksize r + 1 - r_size_read r)"
    by auto
qed

text \<open>
  \<^verbatim>\<open>wave.open(io.BytesIO(file), 'rb')\<close>: the RIFF header, the form type \<^verbatim>\<open>WAVE\<close>, then
  the loop. \<open>readframes\<close> is \<^verbatim>\<open>Wave_read.readframes\<close> on the reader just opened.
\<close>

definition wave_open :: "bytes \<Rightarrow> exn + wave_read" where
  "wave_open file =
     (let name = take 4 file; sz = take 4 (drop 4 file)
      in if length name < 4 then Inl EOFError
         else if length sz < 4 then Inl EOFError
         else let r = \<lparr>r_body = drop 8 file, r_chunksize = unpack_uint sz, r_size_read = 0\<rparr>
              in if name \<noteq> ascii ''RIFF''
                 then Inl (WaveError ''file does not start with RIFF id'')
                 else let (form, r) = riff_read r 4
                      in if form \<noteq> ascii ''WAVE'' then Inl (WaveError ''not a WAVE file'')
                         else chunk_loop None r)"

definition readframes :: "wave_read \<Rightarrow> nat \<Rightarrow> bytes" where
  "readframes w nframes =
     (if nframes = 0 then []
      else fst (chunk_read (w_data_chunk w) (w_file w) (nframes * f_framesize (w_fmt w))))"

subsection \<open>Decoding the samples\<close>

text \<open>
  \<^verbatim>\<open>np.frombuffer(raw, dtype=np.int16)\<close> reads little-endian two's complement samples
  (on a little-endian machine) and raises \<^verbatim>\<open>ValueError\<close> when the number of bytes is
  odd. The conversion to \<^verbatim>\<open>float32\<close> and the division by 32768 are float operations.
\<close>

definition int16_le :: "byte \<Rightarrow> byte \<Rightarrow> int" where
  "int16_le lo hi =
     (let u = int (unat lo) + 256 * int (unat hi) in if u < 32768 then u else u - 65536)"

fun int16s :: "bytes \<Rightarrow> int list" where
  "int16s (lo # hi # rest) = int16_le lo hi # int16s rest"
| "int16s _ = []"

definition frombuffer_int16 :: "bytes \<Rightarrow> exn + int list" where
  "frombuffer_int16 raw = (if odd (length raw) then Inl ValueError else Inr (int16s raw))"

definition wav_bytes_to_float_np :: "bytes \<Rightarrow> exn + rat list \<times> nat" where
  "wav_bytes_to_float_np wav_bytes =
     (case wave_open wav_bytes of
        Inl e \<Rightarrow> Inl e
      | Inr w \<Rightarrow>
          if f_nchannels (w_fmt w) \<noteq> 1 \<or> f_sampwidth (w_fmt w) \<noteq> 2
          then Inl (HTTPException 400 ''Expect mono 16-bit WAV'')
          else let sr = f_framerate (w_fmt w);
                   raw = readframes w (w_nframes w)
               in case frombuffer_int16 raw of
                    Inl e \<Rightarrow> Inl e
                  | Inr pcm16 \<Rightarrow>
                      if length pcm16 = 0 then Inr ([], sr)
                      else Inr (map (\<lambda>k. fl32 (fl32 (of_int k) / 32768)) pcm16, sr))"

section \<open>Recognition and diarization\<close>

definition TARGET_SAMPLE_RATE :: nat where
  "TARGET_SAMPLE_RATE = 16000"

text \<open>
  \<^verbatim>\<open>np.linspace(start, stop, num=num, endpoint=False)\<close> and
  \<^verbatim>\<open>np.interp(x, xp, fp)\<close> of numpy, in \<^verbatim>\<open>float64\<close>: evenly spaced points
  \<open>i * step\<close>, and the piecewise linear interpolant through the points \<open>(xp, fp)\<close>,
  constant outside them. \<^verbatim>\<open>np.interp\<close> raises \<^verbatim>\<open>ValueError\<close> on an empty \<open>xp\<close> and
  on lists of different lengths.
\<close>

definition np_linspace :: "rat \<Rightarrow> rat \<Rightarrow> nat \<Rightarrow> rat list" where
  "np_linspace start stop num =
     (let delta = fl64 (stop - start);
          step = fl64 (delta / of_nat num)
      in map (\<lambda>i. fl64 ((if step = 0 then fl64 (fl64 (of_nat i / of_nat num) * delta)
                           else fl64 (of_nat i * step)) + start)) [0..<num])"

definition interp_at :: "rat list \<Rightarrow> rat list \<Rightarrow> rat \<Rightarrow> rat" where
  "interp_at xp fp x =
     (if x < hd xp then hd fp
      else if last xp < x then last fp
      else let j = length (takeWhile (\<lambda>v. v \<le> x) xp) - 1
           in if j = length xp - 1 then fp ! j
              else if xp ! j = x then fp ! j
              else let slope = fl64 (fl64 (fp ! (j + 1) - fp ! j) / fl64 (xp ! (j + 1) - xp ! j))
                   in fl64 (fl64 (slope * fl64 (x - xp ! j)) + fp ! j))"

definition np_interp :: "rat list \<Rightarrow> rat list \<Rightarrow> rat list \<Rightarrow> exn + rat list" where
  "np_interp x xp fp =
     (if xp = [] then Inl ValueError
      else if length fp \<noteq> length xp then Inl ValueError
      else Inr (map (interp_at xp fp) x))"

text \<open>
  The resampling step of \<^verbatim>\<open>run_whisper\<close> (the body of \<^verbatim>\<open>if sr != TARGET_SAMPLE_RATE\<close>):
  \<open>None\<close> is the early \<^verbatim>\<open>return []\<close> for a target length that is not positive.
\<close>

definition resample :: "rat list \<Rightarrow> nat \<Rightarrow> exn + rat list option" where
  "resample audio sr =
     (if sr = 0 then Inl ZeroDivisionError
      else let duration = fl64 (of_nat (length audio) / of_nat sr);
               new_length = py_int_of_float (fl64 (duration * of_nat TARGET_SAMPLE_RATE))
           in if new_length \<le> 0 then Inr None
              else let xp = np_linspace 0 duration (length audio);
                       x_new = np_linspace 0 duration (nat new_length)
                   in case np_interp x_new xp audio of
                        Inl e \<Rightarrow> Inl e
                      | Inr y \<Rightarrow> Inr (Some (map fl32 y)))"

text \<open>
  The recognition engine is outside the repository. \<^verbatim>\<open>get_whisper()\<close> either raises or
  gives the model, whose \<^verbatim>\<open>transcribe\<close> (with the fixed decoding options) maps the audio
  to the segments it yields, or raises. A raw segment's text may be \<^verbatim>\<open>None\<close>.
\<close>

record raw_segment =
  rs_start :: rat
  rs_end :: rat
  rs_text :: "string option"

type_synonym whisper_model = "rat list \<Rightarrow> exn + raw_segment list"

definition py_isspace :: "char \<Rightarrow> bool" where
  \<comment> \<open>\<^verbatim>\<open>str.isspace\<close> on the code points below 256\<close>
  "py_isspace c = ((of_char c :: nat) \<in> {9, 10, 11, 12, 13, 28, 29, 30, 31, 32, 133, 160})"

definition py_strip :: "string \<Rightarrow> string" where
  "py_strip s = rev (dropWhile py_isspace (rev (dropWhile py_isspace s)))"

fun collect_segments :: "raw_segment list \<Rightarrow> segment list" where
  "collect_segments [] = []"
| "collect_segments (seg # segs) =
     (let text = py_strip (case rs_text seg of None \<Rightarrow> [] | Some t \<Rightarrow> t)
      in if text = [] then collect_segments segs
         else \<lparr>seg_start = rs_start seg, seg_end = rs_end seg, seg_text = text,
               seg_speaker = None\<rparr> # collect_segments segs)"

definition run_whisper :: "exn + whisper_model \<Rightarrow> bytes \<Rightarrow> exn + segment list" where
  "run_whisper get_whisper wav_bytes =
     (case get_whisper of
        Inl e \<Rightarrow> Inl e
      | Inr model \<Rightarrow>
          (case wav_bytes_to_float_np wav_bytes of
             Inl e \<Rightarrow> Inl e
           | Inr (audio, sr) \<Rightarrow>
               if length audio = 0 then Inr []
               else case (if sr \<noteq> TARGET_SAMPLE_RATE then resample audio sr
                          else Inr (Some audio)) of
                      Inl e \<Rightarrow> Inl e
                    | Inr None \<Rightarrow> Inr []
                    | Inr (Some audio) \<Rightarrow>
                        (case model audio of
                           Inl e \<Rightarrow> Inl e
                         | Inr segments \<Rightarrow> Inr (collect_segments segments))))"

definition run_diarization :: "bytes \<Rightarrow> diar_segment list" where
  "run_diarization wav_bytes = [\<lparr>d_start = 0, d_end = 5, d_speaker = ''SPEAKER_00''\<rparr>]"

section \<open>The HTTP endpoint\<close>

text \<open>
  The response of \<^verbatim>\<open>POST /transcribe\<close>: the JSON body \<^verbatim>\<open>{"segments": final}\<close> with
  status 200, or the error response the framework builds from an \<^verbatim>\<open>HTTPException\<close>:
  its status code, and as detail either the given text or \<^verbatim>\<open>str(e)\<close> of the exception
  that was caught.
\<close>

datatype detail = Detail string | StrOf exn

datatype http_response = JSONResponse "segment list" | ErrorResponse nat detail

fun status_code :: "http_response \<Rightarrow> nat" where
  "status_code (JSONResponse segments) = 200"
| "status_code (ErrorResponse code d) = code"

definition transcribe :: "exn + whisper_model \<Rightarrow> bytes \<Rightarrow> http_response" where
  "transcribe get_whisper content =
     (if content = [] then ErrorResponse 400 (Detail ''Empty audio'')
      else case run_whisper get_whisper content of
             Inl (HTTPException code d) \<Rightarrow> ErrorResponse code (Detail d)
           | Inl e \<Rightarrow> ErrorResponse 500 (StrOf e)
           | Inr stt_segments \<Rightarrow>
               let spk_segments = run_diarization content;
                   final = assign_speakers stt_segments spk_segments
               in JSONResponse final)"

section \<open>The WebSocket endpoint\<close>

text \<open>
  \<^verbatim>\<open>json.loads\<close> and \<^verbatim>\<open>int\<close> on a string are Python's own; they are parameters of the
  model (\<open>None\<close> when they raise). A parsed JSON value is a \<open>json\<close>; an object is the
  list of its keys and values, each key once. \<open>JNonFinite\<close> is one of the floats
  \<^verbatim>\<open>NaN\<close>, \<^verbatim>\<open>Infinity\<close> and \<^verbatim>\<open>-Infinity\<close>, which \<^verbatim>\<open>json.loads\<close> accepts.
\<close>

datatype json =
    JNull
  | JBool bool
  | JInt int
  | JFloat rat
  | JNonFinite
  | JString string
  | JArray "json list"
  | JObject "(string \<times> json) list"

record python =
  json_loads :: "string \<Rightarrow> json option"
  int_of_str :: "string \<Rightarrow> int option"

fun py_int :: "python \<Rightarrow> json \<Rightarrow> int option" where
  "py_int py (JInt n) = Some n"
| "py_int py (JBool b) = Some (if b then 1 else 0)"
| "py_int py (JFloat x) = Some (py_int_of_float x)"
| "py_int py (JString s) = int_of_str py s"
| "py_int py _ = None"

record session =
  buffer :: bytes
  current_sr :: int

text \<open>The body of \<^verbatim>\<open>if 'sampleRate' in text\<close>: any exception is swallowed.\<close>

definition configure :: "python \<Rightarrow> session \<Rightarrow> string \<Rightarrow> session" where
  "configure py st text =
     (case json_loads py text of
        None \<Rightarrow> st
      | Some (JObject cfg) \<Rightarrow>
          if map_of cfg ''type'' = Some (JString ''config'') then
            (case (case map_of cfg ''sampleRate'' of
                     None \<Rightarrow> Some (current_sr st)
                   | Some v \<Rightarrow> py_int py v) of
               None \<Rightarrow> st
             | Some sr \<Rightarrow> if sr > 0 then st\<lparr>current_sr := sr\<rparr> else st)
          else st
      | Some _ \<Rightarrow> st)"

definition is_end :: "string \<Rightarrow> bool" where
  "is_end text \<longleftrightarrow>
     text = ''end'' \<or> text = ''{\"type\":\"end\"}'' \<or> sublist ''\"type\":\"end\"'' text"

text \<open>
  An outbound text frame \<^verbatim>\<open>{"type": ..., ...}\<close>: its type and the rest of the object
  (\<^verbatim>\<open>"segments"\<close> or \<^verbatim>\<open>"detail"\<close>, the latter \<^verbatim>\<open>str(e)\<close>).
\<close>

datatype payload = Segments "segment list" | ErrorDetail exn

record ws_message =
  msg_type :: string
  msg_payload :: payload

text \<open>The final processing: the first exception of the pipeline, or the message to send.\<close>

definition finalize :: "exn + whisper_model \<Rightarrow> session \<Rightarrow> exn + ws_message" where
  "finalize get_whisper st =
     (case pcm16_to_wav_bytes (buffer st) (current_sr st) of
        Inl e \<Rightarrow> Inl e
      | Inr wav_bytes \<Rightarrow>
          (case run_whisper get_whisper wav_bytes of
             Inl e \<Rightarrow> Inl e
           | Inr stt \<Rightarrow>
               let spk = run_diarization wav_bytes;
                   final = assign_speakers stt spk
               in Inr \<lparr>msg_type = ''final'', msg_payload = Segments final\<rparr>))"

text \<open>
  What \<^verbatim>\<open>await ws.receive()\<close> does, one event per call: it returns a message with
  its \<^verbatim>\<open>bytes\<close> and \<^verbatim>\<open>text\<close> (\<open>None\<close> for a missing key or a \<^verbatim>\<open>None\<close> value), or it
  raises. \<open>Closed e\<close>: the peer has gone, the call raises \<open>e\<close> and every later send
  fails. \<open>Failed e\<close>: the call raises \<open>e\<close> on a connection that is still open.
  A session whose events are used up is waiting in \<^verbatim>\<open>receive\<close>.
\<close>

datatype ws_event =
    Receive "bytes option" "string option"
  | Closed exn
  | Failed exn

datatype ws_state = Streaming session | Ended

record ws_result =
  sent :: "ws_message list"
  state :: ws_state

text \<open>
  The two \<^verbatim>\<open>except\<close> clauses and \<^verbatim>\<open>finally\<close>: \<^verbatim>\<open>WebSocketDisconnect\<close> is passed over;
  for any other exception an error message is sent, which reaches the peer only on an
  open connection (a failing send is swallowed).
\<close>

definition on_exception :: "bool \<Rightarrow> exn \<Rightarrow> ws_result" where
  "on_exception conn e =
     (if e = WebSocketDisconnect \<or> \<not> conn then \<lparr>sent = [], state = Ended\<rparr>
      else \<lparr>sent = [\<lparr>msg_type = ''error'', msg_payload = ErrorDetail e\<rparr>], state = Ended\<rparr>)"

text \<open>
  The \<^verbatim>\<open>while True\<close> loop of \<^verbatim>\<open>ws\<close>. \<open>alive\<close> tells whether the peer is still
  connected after the final processing, when the handler sends its message: if it is
  not, \<^verbatim>\<open>send_text\<close> raises, and the error message that the handler tries next fails
  as well.
\<close>

fun ws_loop :: "exn + whisper_model \<Rightarrow> python \<Rightarrow> bool \<Rightarrow> session \<Rightarrow> ws_event list
    \<Rightarrow> ws_result" where
  "ws_loop get_whisper py alive st [] = \<lparr>sent = [], state = Streaming st\<rparr>"
| "ws_loop get_whisper py alive st (Closed e # events) = on_exception False e"
| "ws_loop get_whisper py alive st (Failed e # events) = on_exception True e"
| "ws_loop get_whisper py alive st (Receive b t # events) =
     (if b \<noteq> None \<and> b \<noteq> Some [] then
        ws_loop get_whisper py alive (st\<lparr>buffer := buffer st @ the b\<rparr>) events
      else if t \<noteq> None \<and> t \<noteq> Some [] then
        (let text = the t
         in if sublist ''sampleRate'' text then
              ws_loop get_whisper py alive (configure py st text) events
            else if is_end text then
              (case finalize get_whisper st of
                 Inl e \<Rightarrow> on_exception alive e
               | Inr m \<Rightarrow>
                   if alive then \<lparr>sent = [m], state = Ended\<rparr>
                   else on_exception False RuntimeError)
            else ws_loop get_whisper py alive st events)
      else ws_loop get_whisper py alive st events)"

definition ws :: "exn + whisper_model \<Rightarrow> python \<Rightarrow> bool \<Rightarrow> ws_event list \<Rightarrow> ws_result" where
  "ws get_whisper py alive events =
     ws_loop get_whisper py alive \<lparr>buffer = [], current_sr = 16000\<rparr> events"


section \<open>Speaker assignment: proofs\<close>

lemma overlap_nonneg: "0 \<le> overlap a b"
  by (cases a; cases b) (simp add: Let_def)

declare overlap.simps [simp del]

text \<open>
  What the inner loop returns: either no segment overlaps more than the starting value,
  and the variables are unchanged, or the result is the first segment of the list whose
  overlap is the greatest one.
\<close>

lemma best_overlap_result:
  assumes "best_overlap s ds best bov = (b, m)"
  shows "((\<forall>d \<in> set ds. overlap (seg_start s, seg_end s) (d_start d, d_end d) \<le> bov)
            \<and> b = best \<and> m = bov)
       \<or> (\<exists>j < length ds. b = Some (ds ! j)
            \<and> m = overlap (seg_start s, seg_end s) (d_start (ds ! j), d_end (ds ! j))
            \<and> bov < m
            \<and> (\<forall>k < length ds.
                  overlap (seg_start s, seg_end s) (d_start (ds ! k), d_end (ds ! k)) \<le> m)
            \<and> (\<forall>k < j.
                  overlap (seg_start s, seg_end s) (d_start (ds ! k), d_end (ds ! k)) < m))"
  using assms
proof (induction ds arbitrary: best bov)
  case Nil
  then show ?case by simp
next
  case (Cons d ds)
  let ?ov = "\<lambda>x. overlap (seg_start s, seg_end s) (d_start x, d_end x)"
  show ?case
  proof (cases "?ov d > bov")
    case True
    with Cons.prems have run: "best_overlap s ds (Some d) (?ov d) = (b, m)"
      by (simp add: Let_def)
    from Cons.IH [OF run] show ?thesis
    proof (elim disjE conjE exE)
      assume all: "\<forall>x \<in> set ds. ?ov x \<le> ?ov d" and b: "b = Some d" and m: "m = ?ov d"
      have "\<forall>k < length (d # ds). ?ov ((d # ds) ! k) \<le> m"
      proof (intro allI impI)
        fix k assume "k < length (d # ds)"
        then show "?ov ((d # ds) ! k) \<le> m"
          using all m by (cases k) auto
      qed
      with b m True have "0 < length (d # ds) \<and> b = Some ((d # ds) ! 0)
          \<and> m = ?ov ((d # ds) ! 0) \<and> bov < m
          \<and> (\<forall>k < length (d # ds). ?ov ((d # ds) ! k) \<le> m)
          \<and> (\<forall>k < (0::nat). ?ov ((d # ds) ! k) < m)"
        by simp
      then show ?thesis by blast
    next
      fix j
      assume j: "j < length ds" and b: "b = Some (ds ! j)" and m: "m = ?ov (ds ! j)"
        and lt: "?ov d < m" and le: "\<forall>k < length ds. ?ov (ds ! k) \<le> m"
        and first: "\<forall>k < j. ?ov (ds ! k) < m"
      have le': "\<forall>k < length (d # ds). ?ov ((d # ds) ! k) \<le> m"
      proof (intro allI impI)
        fix k assume "k < length (d # ds)"
        then show "?ov ((d # ds) ! k) \<le> m"
          using le lt by (cases k) auto
      qed
      have first': "\<forall>k < Suc j. ?ov ((d # ds) ! k) < m"
      proof (intro allI impI)
        fix k assume "k < Suc j"
        then show "?ov ((d # ds) ! k) < m"
          using first lt by (cases k) auto
      qed
      from True lt have "bov < m" by simp
      with j b m le' first' have "Suc j < length (d # ds) \<and> b = Some ((d # ds) ! Suc j)
          \<and> m = ?ov ((d # ds) ! Suc j) \<and> bov < m
          \<and> (\<forall>k < length (d # ds). ?ov ((d # ds) ! k) \<le> m)
          \<and> (\<forall>k < Suc j. ?ov ((d # ds) ! k) < m)"
        by simp
      then show ?thesis by blast
    qed
  next
    case False
    with Cons.prems have run: "best_overlap s ds best bov = (b, m)"
      by (simp add: Let_def)
    from Cons.IH [OF run] show ?thesis
    proof (elim disjE conjE exE)
      assume "\<forall>x \<in> set ds. ?ov x \<le> bov" and "b = best" and "m = bov"
      with False show ?thesis by auto
    next
      fix j
      assume j: "j < length ds" and b: "b = Some (ds ! j)" and m: "m = ?ov (ds ! j)"
        and lt: "bov < m" and le: "\<forall>k < length ds. ?ov (ds ! k) \<le> m"
        and first: "\<forall>k < j. ?ov (ds ! k) < m"
      from False lt have d: "?ov d < m" by simp
      have le': "\<forall>k < length (d # ds). ?ov ((d # ds) ! k) \<le> m"
      proof (intro allI impI)
        fix k assume "k < length (d # ds)"
        then show "?ov ((d # ds) ! k) \<le> m"
          using le d by (cases k) auto
      qed
      have first': "\<forall>k < Suc j. ?ov ((d # ds) ! k) < m"
      proof (intro allI impI)
        fix k assume "k < Suc j"
        then show "?ov ((d # ds) ! k) < m"
          using first d by (cases k) auto
      qed
      from j b m lt le' first' have "Suc j < length (d # ds) \<and> b = Some ((d # ds) ! Suc j)
          \<and> m = ?ov ((d # ds) ! Suc j) \<and> bov < m
          \<and> (\<forall>k < length (d # ds). ?ov ((d # ds) ! k) \<le> m)
          \<and> (\<forall>k < Suc j. ?ov ((d # ds) ! k) < m)"
        by simp
      then show ?thesis by blast
    qed
  qed
qed

lemma assign_one_frame:
  "seg_start (assign_one spk s) = seg_start s
   \<and> seg_end (assign_one spk s) = seg_end s
   \<and> seg_text (assign_one spk s) = seg_text s"
  by (simp add: assign_one_def split: option.split)

lemma fl64_one: "fl64 1 = 1"
  by (simp add: fl_def float_exp_def round_half_even_def compute_bitlen)

text \<open>
  Claim C3. For a non-empty diarization list, the overlap of two windows is
  \<open>max 0 (min end\<^sub>A end\<^sub>B - max start\<^sub>A start\<^sub>B)\<close> (the subtraction is a float
  subtraction); a recognition segment gets the default speaker when its overlap with
  every diarization segment is 0, and otherwise the speaker of the first diarization
  segment whose overlap is the greatest one: no other overlap is greater, and every
  earlier one is strictly smaller. The segment (2, 4) against (0, 3, A) and (3, 6, B)
  is labelled A.
\<close>

theorem assign_speakers_greatest_overlap:
  assumes "spk \<noteq> []" and "i < length stt"
  shows "overlap (a0, a1) (b0, b1) = max 0 (fl64 (min a1 b1 - max a0 b0))
    \<and> (let s = stt ! i;
            ov = (\<lambda>d. overlap (seg_start s, seg_end s) (d_start d, d_end d));
            out = assign_speakers stt spk ! i
        in if \<forall>d \<in> set spk. ov d = 0 then seg_speaker out = Some DEFAULT_SPEAKER
           else \<exists>j < length spk. seg_speaker out = Some (d_speaker (spk ! j))
                  \<and> (\<forall>k < length spk. ov (spk ! k) \<le> ov (spk ! j))
                  \<and> (\<forall>k < j. ov (spk ! k) < ov (spk ! j)))
    \<and> map seg_speaker (assign_speakers
          [\<lparr>seg_start = 2, seg_end = 4, seg_text = t, seg_speaker = None\<rparr>]
          [\<lparr>d_start = 0, d_end = 3, d_speaker = ''A''\<rparr>,
           \<lparr>d_start = 3, d_end = 6, d_speaker = ''B''\<rparr>]) = [Some ''A'']"
proof (intro conjI)
  show "overlap (a0, a1) (b0, b1) = max 0 (fl64 (min a1 b1 - max a0 b0))"
    by (simp add: overlap.simps Let_def)
next
  define s where "s = stt ! i"
  define ov where "ov = (\<lambda>d::diar_segment. overlap (seg_start s, seg_end s) (d_start d, d_end d))"
  define out where "out = assign_speakers stt spk ! i"
  obtain b m where run: "best_overlap s spk None 0 = (b, m)"
    by (cases "best_overlap s spk None 0")
  from assms have out: "out = assign_one spk s"
    by (simp add: out_def s_def assign_speakers_def)
  have nonneg: "0 \<le> ov d" for d
    by (simp add: ov_def overlap_nonneg)
  have "if \<forall>d \<in> set spk. ov d = 0 then seg_speaker out = Some DEFAULT_SPEAKER
        else \<exists>j < length spk. seg_speaker out = Some (d_speaker (spk ! j))
               \<and> (\<forall>k < length spk. ov (spk ! k) \<le> ov (spk ! j))
               \<and> (\<forall>k < j. ov (spk ! k) < ov (spk ! j))"
    using best_overlap_result [OF run]
  proof (elim disjE conjE exE)
    assume all: "\<forall>d \<in> set spk. overlap (seg_start s, seg_end s) (d_start d, d_end d) \<le> 0"
      and b: "b = None"
    have "\<forall>d \<in> set spk. ov d = 0"
    proof
      fix d assume "d \<in> set spk"
      with all have "ov d \<le> 0" by (simp add: ov_def)
      with nonneg [of d] show "ov d = 0" by simp
    qed
    moreover have "seg_speaker out = Some DEFAULT_SPEAKER"
      using run b by (simp add: out assign_one_def)
    ultimately show ?thesis by simp
  next
    fix j
    assume j: "j < length spk" and b: "b = Some (spk ! j)"
      and m: "m = overlap (seg_start s, seg_end s) (d_start (spk ! j), d_end (spk ! j))"
      and pos: "0 < m"
      and le: "\<forall>k < length spk.
          overlap (seg_start s, seg_end s) (d_start (spk ! k), d_end (spk ! k)) \<le> m"
      and first: "\<forall>k < j.
          overlap (seg_start s, seg_end s) (d_start (spk ! k), d_end (spk ! k)) < m"
    from j have "spk ! j \<in> set spk" by simp
    moreover from pos m have "ov (spk ! j) \<noteq> 0" by (simp add: ov_def)
    ultimately have "\<not> (\<forall>d \<in> set spk. ov d = 0)" by blast
    moreover have "seg_speaker out = Some (d_speaker (spk ! j))"
      using run b by (simp add: out assign_one_def)
    moreover from le m have "\<forall>k < length spk. ov (spk ! k) \<le> ov (spk ! j)"
      by (simp add: ov_def)
    moreover from first m have "\<forall>k < j. ov (spk ! k) < ov (spk ! j)"
      by (simp add: ov_def)
    ultimately show ?thesis using j by auto
  qed
  then show "let s = stt ! i;
            ov = (\<lambda>d. overlap (seg_start s, seg_end s) (d_start d, d_end d));
            out = assign_speakers stt spk ! i
        in if \<forall>d \<in> set spk. ov d = 0 then seg_speaker out = Some DEFAULT_SPEAKER
           else \<exists>j < length spk. seg_speaker out = Some (d_speaker (spk ! j))
                  \<and> (\<forall>k < length spk. ov (spk ! k) \<le> ov (spk ! j))
                  \<and> (\<forall>k < j. ov (spk ! k) < ov (spk ! j))"
    unfolding Let_def s_def ov_def out_def .
next
  show "map seg_speaker (assign_speakers
          [\<lparr>seg_start = 2, seg_end = 4, seg_text = t, seg_speaker = None\<rparr>]
          [\<lparr>d_start = 0, d_end = 3, d_speaker = ''A''\<rparr>,
           \<lparr>d_start = 3, d_end = 6, d_speaker = ''B''\<rparr>]) = [Some ''A'']"
    by (simp add: assign_speakers_def assign_one_def overlap.simps Let_def fl64_one)
qed

text \<open>
  The theorem at the claim's own example: both overlaps are 1 and the first candidate
  wins.
\<close>

theorem assign_speakers_greatest_overlap_witness:
  "[\<lparr>d_start = 0, d_end = 3, d_speaker = ''A''\<rparr>,
    \<lparr>d_start = 3, d_end = 6, d_speaker = ''B''\<rparr>] \<noteq> []
   \<and> (0::nat) < length [\<lparr>seg_start = 2, seg_end = 4, seg_text = ''hi'', seg_speaker = None\<rparr>]
   \<and> overlap (2, 4) (0, 3) = 1 \<and> overlap (2, 4) (3, 6) = 1
   \<and> map seg_speaker (assign_speakers
          [\<lparr>seg_start = 2, seg_end = 4, seg_text = ''hi'', seg_speaker = None\<rparr>]
          [\<lparr>d_start = 0, d_end = 3, d_speaker = ''A''\<rparr>,
           \<lparr>d_start = 3, d_end = 6, d_speaker = ''B''\<rparr>]) = [Some ''A'']"
proof -
  let ?spk = "[\<lparr>d_start = 0, d_end = 3, d_speaker = ''A''\<rparr>,
    \<lparr>d_start = 3, d_end = 6, d_speaker = ''B''\<rparr>]"
  let ?stt = "[\<lparr>seg_start = 2, seg_end = 4, seg_text = ''hi'', seg_speaker = None\<rparr>]"
  have h1: "?spk \<noteq> []" by simp
  have h2: "0 < length ?stt" by simp
  note inst = assign_speakers_greatest_overlap [OF h1 h2]
  from inst [of 2 4 0 3] have "overlap (2, 4) (0, 3) = 1"
    by (simp add: fl64_one)
  moreover from inst [of 2 4 3 6] have "overlap (2, 4) (3, 6) = 1"
    by (simp add: fl64_one)
  moreover from inst [of 0 0 0 0 "''hi''"] have "map seg_speaker (assign_speakers ?stt ?spk) = [Some ''A'']"
    by simp
  ultimately show ?thesis by simp
qed

text \<open>
  Claim C8. With an empty diarization list every recognition segment is labelled
  \<^verbatim>\<open>SPEAKER_00\<close> and its start, end and text are unchanged; the segment
  \<open>{0, 1, "hi"}\<close> becomes \<open>{0, 1, "hi", "SPEAKER_00"}\<close>.
\<close>

theorem assign_speakers_no_diarization:
  "assign_speakers stt [] = map (\<lambda>s. s\<lparr>seg_speaker := Some ''SPEAKER_00''\<rparr>) stt
   \<and> map seg_start (assign_speakers stt []) = map seg_start stt
   \<and> map seg_end (assign_speakers stt []) = map seg_end stt
   \<and> map seg_text (assign_speakers stt []) = map seg_text stt
   \<and> assign_speakers [\<lparr>seg_start = 0, seg_end = 1, seg_text = ''hi'', seg_speaker = None\<rparr>] []
       = [\<lparr>seg_start = 0, seg_end = 1, seg_text = ''hi'', seg_speaker = Some ''SPEAKER_00''\<rparr>]"
  by (simp add: assign_speakers_def DEFAULT_SPEAKER_def comp_def)

text \<open>The theorem at the claim's example.\<close>

theorem assign_speakers_no_diarization_witness:
  "assign_speakers [\<lparr>seg_start = 0, seg_end = 1, seg_text = ''hi'', seg_speaker = None\<rparr>] []
       = [\<lparr>seg_start = 0, seg_end = 1, seg_text = ''hi'', seg_speaker = Some ''SPEAKER_00''\<rparr>]"
  using assign_speakers_no_diarization [of "[]"] by simp

text \<open>
  Claim C10. For all inputs the result has the length of the recognition list and, in
  the same order, the same start, end and text; only the speaker is set (and it is set
  on every element).
\<close>

theorem assign_speakers_frame:
  "length (assign_speakers stt spk) = length stt
   \<and> map seg_start (assign_speakers stt spk) = map seg_start stt
   \<and> map seg_end (assign_speakers stt spk) = map seg_end stt
   \<and> map seg_text (assign_speakers stt spk) = map seg_text stt
   \<and> list_all (\<lambda>s. seg_speaker s \<noteq> None) (assign_speakers stt spk)"
  by (simp add: assign_speakers_def comp_def assign_one_frame assign_one_def list_all_iff
      split: option.split)

text \<open>The theorem at a two-segment list, one of which already carries a speaker.\<close>

theorem assign_speakers_frame_witness:
  "map seg_text (assign_speakers
      [\<lparr>seg_start = 0, seg_end = 1, seg_text = ''a'', seg_speaker = None\<rparr>,
       \<lparr>seg_start = 1, seg_end = 2, seg_text = ''b'', seg_speaker = Some ''X''\<rparr>]
      [\<lparr>d_start = 0, d_end = 5, d_speaker = ''SPEAKER_00''\<rparr>]) = [''a'', ''b'']"
  using assign_speakers_frame [of "[\<lparr>seg_start = 0, seg_end = 1, seg_text = ''a'', seg_speaker = None\<rparr>,
       \<lparr>seg_start = 1, seg_end = 2, seg_text = ''b'', seg_speaker = Some ''X''\<rparr>]"
      "[\<lparr>d_start = 0, d_end = 5, d_speaker = ''SPEAKER_00''\<rparr>]"]
  by simp

section \<open>WAV files: proofs\<close>

lemma length_le_bytes [simp]: "length (le_bytes n v) = n"
  by (induction n arbitrary: v) simp_all

lemma length_ascii [simp]: "length (ascii s) = length s"
  by (simp add: ascii_def)

lemma unat_byte_of_int: "unat (word_of_int v :: byte) = nat (v mod 256)"
  by (simp add: unat_eq_nat_uint uint_word_of_int)

lemma unpack_uint_le_bytes:
  "0 \<le> v \<Longrightarrow> v < 256 ^ n \<Longrightarrow> unpack_uint (le_bytes n v) = nat v"
proof (induction n arbitrary: v)
  case 0
  then show ?case by simp
next
  case (Suc n)
  have nn: "0 \<le> v div 256" using Suc.prems by simp
  moreover have "v div 256 < 256 ^ n" using Suc.prems by (simp add: div_less_iff_less_mult)
  ultimately have IH: "unpack_uint (le_bytes n (v div 256)) = nat (v div 256)"
    by (rule Suc.IH)
  have "int (nat (v mod 256) + 256 * nat (v div 256)) = v"
    using Suc.prems nn by simp
  then have "nat (v mod 256) + 256 * nat (v div 256) = nat v"
    by (metis nat_int)
  then show ?case
    by (simp add: IH unat_byte_of_int)
qed

lemma pack_uint_ok: "0 \<le> v \<Longrightarrow> v < 256 ^ n \<Longrightarrow> pack_uint n v = Inr (le_bytes n v)"
  by (simp add: pack_uint_def)

lemma write_at_4:
  "length a = 4 \<Longrightarrow> length b = 4 \<Longrightarrow> length b' = 4 \<Longrightarrow>
     write_at (a @ b @ rest) 4 b' = a @ b' @ rest"
  by (simp add: write_at_def)

lemma write_at_40:
  "length a = 40 \<Longrightarrow> length b = 4 \<Longrightarrow> length b' = 4 \<Longrightarrow>
     write_at (a @ b @ rest) 40 b' = a @ b' @ rest"
  by (simp add: write_at_def)

lemma pcm16_to_wav_bytes_image:
  assumes "0 < sr" "sr < 2147483648" "int (length pcm) + 36 < 4294967296"
  shows "pcm16_to_wav_bytes pcm sr =
     Inr (ascii ''RIFF'' @ le_bytes 4 (36 + int (length pcm)) @ ascii ''WAVE'' @ ascii ''fmt ''
          @ le_bytes 4 16 @ le_bytes 2 1 @ le_bytes 2 1 @ le_bytes 4 sr @ le_bytes 4 (sr * 2)
          @ le_bytes 2 2 @ le_bytes 2 16 @ ascii ''data'' @ le_bytes 4 (int (length pcm)) @ pcm)"
proof -
  let ?len = "int (length pcm)"
  let ?dl = "?len div 2 * 2"
  have dl: "0 \<le> ?dl" "?dl \<le> ?len" by simp_all
  let ?mid = "ascii ''WAVE'' @ ascii ''fmt ''
          @ le_bytes 4 16 @ le_bytes 2 1 @ le_bytes 2 1 @ le_bytes 4 sr @ le_bytes 4 (sr * 2)
          @ le_bytes 2 2 @ le_bytes 2 16 @ ascii ''data''"
  have hdr: "write_header 1 2 sr (length pcm) =
      Inr (ascii ''RIFF'' @ le_bytes 4 (36 + ?dl) @ ?mid @ le_bytes 4 ?dl, ?dl)"
    using assms dl by (simp add: write_header_def pack_uint_ok Let_def)
  show ?thesis
  proof (cases "?dl = ?len")
    case True
    with assms hdr show ?thesis
      by (simp add: pcm16_to_wav_bytes_def Let_def)
  next
    case False
    have p1: "write_at (ascii ''RIFF'' @ le_bytes 4 (36 + ?dl) @ (?mid @ le_bytes 4 ?dl @ pcm)) 4
        (le_bytes 4 (36 + ?len))
        = ascii ''RIFF'' @ le_bytes 4 (36 + ?len) @ (?mid @ le_bytes 4 ?dl @ pcm)"
      by (rule write_at_4) simp_all
    have p2: "write_at ((ascii ''RIFF'' @ le_bytes 4 (36 + ?len) @ ?mid) @ le_bytes 4 ?dl @ pcm) 40
        (le_bytes 4 ?len)
        = (ascii ''RIFF'' @ le_bytes 4 (36 + ?len) @ ?mid) @ le_bytes 4 ?len @ pcm"
      by (rule write_at_40) simp_all
    from assms have "patchheader
        (ascii ''RIFF'' @ le_bytes 4 (36 + ?dl) @ ?mid @ le_bytes 4 ?dl @ pcm) ?len
        = Inr (ascii ''RIFF'' @ le_bytes 4 (36 + ?len) @ ?mid @ le_bytes 4 ?len @ pcm)"
      using p1 p2 by (simp add: patchheader_def pack_uint_ok)
    with assms hdr False show ?thesis
      by (simp add: pcm16_to_wav_bytes_def Let_def)
  qed
qed

declare chunk_loop.simps [simp del]

lemma wave_open_image:
  assumes "0 \<le> sr" "sr < 4294967296" "int (length pcm) + 36 < 4294967296"
  shows "wave_open (ascii ''RIFF'' @ le_bytes 4 (36 + int (length pcm)) @ ascii ''WAVE''
          @ ascii ''fmt '' @ le_bytes 4 16 @ le_bytes 2 1 @ le_bytes 2 1 @ le_bytes 4 sr
          @ le_bytes 4 (sr * 2) @ le_bytes 2 2 @ le_bytes 2 16 @ ascii ''data''
          @ le_bytes 4 (int (length pcm)) @ pcm) =
     Inr \<lparr>w_fmt = \<lparr>f_nchannels = 1, f_sampwidth = 2, f_framerate = nat sr, f_framesize = 2\<rparr>,
          w_nframes = length pcm div 2,
          w_data_chunk = \<lparr>chunkname = ascii ''data'', chunksize = length pcm, size_read = 0\<rparr>,
          w_file = \<lparr>r_body = ascii ''WAVE''
              @ ascii ''fmt '' @ le_bytes 4 16 @ le_bytes 2 1 @ le_bytes 2 1 @ le_bytes 4 sr
              @ le_bytes 4 (sr * 2) @ le_bytes 2 2 @ le_bytes 2 16 @ ascii ''data''
              @ le_bytes 4 (int (length pcm)) @ pcm,
            r_chunksize = 36 + length pcm, r_size_read = 36\<rparr>\<rparr>"
proof -
  let ?body = "ascii ''WAVE''
              @ ascii ''fmt '' @ le_bytes 4 16 @ le_bytes 2 1 @ le_bytes 2 1 @ le_bytes 4 sr
              @ le_bytes 4 (sr * 2) @ le_bytes 2 2 @ le_bytes 2 16 @ ascii ''data''
              @ le_bytes 4 (int (length pcm)) @ pcm"
  let ?r = "\<lambda>n. \<lparr>r_body = ?body, r_chunksize = 36 + length pcm, r_size_read = n\<rparr>"
  have u: "unpack_uint (le_bytes 4 (36 + int (length pcm))) = 36 + length pcm"
    "unpack_uint (le_bytes 4 (int (length pcm))) = length pcm"
    "unpack_uint (le_bytes 4 16) = 16" "unpack_uint (le_bytes 2 1) = 1"
    "unpack_uint (le_bytes 4 sr) = nat sr" "unpack_uint (le_bytes 2 16) = 16"
    using assms by (simp_all add: unpack_uint_le_bytes)
  have neq: "ascii ''fmt '' \<noteq> ascii ''data''"
    by (simp add: ascii_def)
  have step1: "chunk_step None (?r 4) = Continue
      (Some \<lparr>f_nchannels = 1, f_sampwidth = 2, f_framerate = nat sr, f_framesize = 2\<rparr>) (?r 28)"
    by (simp add: chunk_step_def new_chunk_def riff_read_def Let_def u chunk_read_def
        read_fmt_chunk_def chunk_skip_def riff_seek_cur_def WAVE_FORMAT_PCM_def)
  have step2: "chunk_step
      (Some \<lparr>f_nchannels = 1, f_sampwidth = 2, f_framerate = nat sr, f_framesize = 2\<rparr>) (?r 28)
      = Done (Inr \<lparr>w_fmt = \<lparr>f_nchannels = 1, f_sampwidth = 2, f_framerate = nat sr,
                  f_framesize = 2\<rparr>,
          w_nframes = length pcm div 2,
          w_data_chunk = \<lparr>chunkname = ascii ''data'', chunksize = length pcm, size_read = 0\<rparr>,
          w_file = ?r 36\<rparr>)"
    using neq by (simp add: chunk_step_def new_chunk_def riff_read_def Let_def u)
  have loop: "chunk_loop None (?r 4) = Inr \<lparr>w_fmt = \<lparr>f_nchannels = 1, f_sampwidth = 2,
          f_framerate = nat sr, f_framesize = 2\<rparr>,
          w_nframes = length pcm div 2,
          w_data_chunk = \<lparr>chunkname = ascii ''data'', chunksize = length pcm, size_read = 0\<rparr>,
          w_file = ?r 36\<rparr>"
    by (subst chunk_loop.simps, simp only: step1 loop_step.case,
        subst chunk_loop.simps, simp only: step2 loop_step.case)
  have four: "Suc (Suc (Suc (Suc 0))) = 4"
    by simp
  show ?thesis
    by (simp add: wave_open_def Let_def u riff_read_def four loop)
qed

lemma readframes_image:
  "readframes \<lparr>w_fmt = \<lparr>f_nchannels = 1, f_sampwidth = 2, f_framerate = sr, f_framesize = 2\<rparr>,
          w_nframes = length pcm div 2,
          w_data_chunk = \<lparr>chunkname = ascii ''data'', chunksize = length pcm, size_read = 0\<rparr>,
          w_file = \<lparr>r_body = ascii ''WAVE''
              @ ascii ''fmt '' @ le_bytes 4 16 @ le_bytes 2 1 @ le_bytes 2 1 @ le_bytes 4 a
              @ le_bytes 4 b @ le_bytes 2 2 @ le_bytes 2 16 @ ascii ''data''
              @ le_bytes 4 c @ pcm,
            r_chunksize = 36 + length pcm, r_size_read = 36\<rparr>\<rparr> (length pcm div 2)
     = take (2 * (length pcm div 2)) pcm"
proof (cases "length pcm div 2 = 0")
  case True
  then show ?thesis by (simp add: readframes_def)
next
  case False
  then have pos: "0 < length pcm" by auto
  let ?n = "length pcm div 2 * 2"
  let ?body = "ascii ''WAVE''
              @ ascii ''fmt '' @ le_bytes 4 16 @ le_bytes 2 1 @ le_bytes 2 1 @ le_bytes 4 a
              @ le_bytes 4 b @ le_bytes 2 2 @ le_bytes 2 16 @ ascii ''data''
              @ le_bytes 4 c @ pcm"
  let ?r = "\<lparr>r_body = ?body, r_chunksize = 36 + length pcm, r_size_read = 36\<rparr>"
  have le: "?n \<le> length pcm" by simp
  have d: "drop 36 ?body = pcm" by simp
  have rr: "fst (riff_read ?r ?n) = take ?n pcm"
    using le by (simp add: riff_read_def Let_def d min_absorb1 del: drop_append)
  have "fst (chunk_read \<lparr>chunkname = ascii ''data'', chunksize = length pcm, size_read = 0\<rparr>
      ?r ?n) = fst (riff_read ?r ?n)"
    using pos le by (simp add: chunk_read_def Let_def min_absorb1 split: prod.split)
  with rr False show ?thesis
    by (simp add: readframes_def mult.commute)
qed



lemma round_half_even_of_int [simp]: "round_half_even (of_int k) = k"
  by (simp add: round_half_even_def)

lemma float_exp_less:
  assumes "x \<noteq> 0" and "\<bar>x\<bar> < 2 powi n"
  shows "float_exp x < n"
proof (cases "1 \<le> \<bar>x\<bar>")
  case True
  have npos: "0 < n"
  proof (rule ccontr)
    assume "\<not> 0 < n"
    then have "n \<le> 0" by simp
    then have "(2::rat) powi n \<le> 2 powi 0"
      by (intro power_int_increasing) simp_all
    with assms True show False by simp
  qed
  then have "(2::rat) powi n = 2 ^ nat n"
    by (simp add: power_int_nonneg_exp)
  with assms have "\<bar>x\<bar> < of_int (2 ^ nat n)" by simp
  then have "\<lfloor>\<bar>x\<bar>\<rfloor> < 2 ^ nat n"
    by (simp add: floor_less_iff)
  with npos have "bitlen \<lfloor>\<bar>x\<bar>\<rfloor> \<le> n"
    by (simp add: bitlen_le_iff_power)
  with True show ?thesis
    by (simp add: float_exp_def)
next
  case False
  show ?thesis
  proof (cases "0 < n")
    case True
    have "0 \<le> bitlen (\<lceil>1 / \<bar>x\<bar>\<rceil> - 1)" by (rule bitlen_nonneg)
    with False True show ?thesis by (simp add: float_exp_def)
  next
    case n: False
    then have n0: "n \<le> 0" by simp
    have xpos: "0 < \<bar>x\<bar>" using assms by simp
    have "(2::rat) powi (- n) = 2 ^ nat (- n)"
      using n0 by (simp add: power_int_nonneg_exp)
    then have "(2::rat) powi n = inverse (2 ^ nat (- n))"
      using power_int_minus [of "2::rat" "- n"] by simp
    with assms have "\<bar>x\<bar> < inverse (2 ^ nat (- n))" by simp
    then have "\<bar>x\<bar> * 2 ^ nat (- n) < 1"
      by (simp add: field_simps)
    then have "2 ^ nat (- n) < 1 / \<bar>x\<bar>"
      using xpos by (simp add: field_simps)
    then have "of_int (2 ^ nat (- n)) < 1 / \<bar>x\<bar>" by simp
    then have "2 ^ nat (- n) < \<lceil>1 / \<bar>x\<bar>\<rceil>"
      by (simp only: less_ceiling_iff)
    moreover have "nat (1 - n) - 1 = nat (- n)"
      using n0 by simp
    ultimately have "2 ^ (nat (1 - n) - 1) \<le> \<lceil>1 / \<bar>x\<bar>\<rceil> - 1"
      by simp
    then have "1 - n \<le> bitlen (\<lceil>1 / \<bar>x\<bar>\<rceil> - 1)"
      by (simp add: bitlen_ge_iff_power)
    with False show ?thesis by (simp add: float_exp_def)
  qed
qed

lemma fl_exact:
  assumes "\<bar>m\<bar> < 2 ^ p"
  shows "fl p (of_int m * 2 powi e) = of_int m * 2 powi e"
proof (cases "m = 0")
  case True
  then show ?thesis by (simp add: fl_def)
next
  case False
  let ?x = "of_int m * 2 powi e :: rat"
  have x0: "?x \<noteq> 0" using False by simp
  have "\<bar>?x\<bar> = of_int \<bar>m\<bar> * 2 powi e"
    by (simp add: abs_mult)
  also have "\<dots> < of_int (2 ^ p) * 2 powi e"
    using assms by (intro mult_strict_right_mono) (simp_all del: of_int_power)
  also have "\<dots> = 2 powi (int p + e)"
    by (simp add: power_int_add)
  finally have "float_exp ?x < int p + e"
    using x0 by (intro float_exp_less)
  define d where "d = nat (e - (float_exp ?x - (int p - 1)))"
  with \<open>float_exp ?x < int p + e\<close> have e: "e = (float_exp ?x - (int p - 1)) + int d"
    by simp
  have "?x / 2 powi (float_exp ?x - (int p - 1)) = of_int m * 2 ^ d"
    by (subst e) (simp add: power_int_add)
  also have "\<dots> = of_int (m * 2 ^ d)" by simp
  finally have r: "round_half_even (?x / 2 powi (float_exp ?x - (int p - 1))) = m * 2 ^ d"
    by (simp only: round_half_even_of_int)
  have "of_int (m * 2 ^ d) * 2 powi (float_exp ?x - (int p - 1)) = (?x :: rat)"
    by (subst (2) e) (simp add: power_int_add)
  with x0 r show ?thesis
    by (simp only: fl_def Let_def if_False)
qed

lemma fl32_sample:
  assumes "- 32768 \<le> k" "k < 32768"
  shows "fl32 (fl32 (of_int k) / 32768) = of_int k / 32768"
proof -
  from assms have b: "\<bar>k\<bar> < 2 ^ 24" by simp
  have "fl32 (of_int k) = of_int k"
    using fl_exact [OF b, of 0] by simp
  moreover have "fl32 (of_int k * 2 powi (- 15)) = of_int k * 2 powi (- 15)"
    by (rule fl_exact [OF b])
  ultimately show ?thesis
    by (simp add: power_int_minus field_simps)
qed


lemma int16_le_range: "- 32768 \<le> int16_le lo hi \<and> int16_le lo hi < 32768"
proof -
  define u where "u = int (unat lo) + 256 * int (unat hi)"
  have "unat lo < 256" "unat hi < 256"
    using unsigned_less [of lo] unsigned_less [of hi] by simp_all
  then have "0 \<le> u" "u < 65536"
    unfolding u_def by linarith+
  moreover have "int16_le lo hi = (if u < 32768 then u else u - 65536)"
    unfolding int16_le_def Let_def u_def ..
  ultimately show ?thesis
    by simp
qed

lemma int16s_range: "k \<in> set (int16s raw) \<Longrightarrow> - 32768 \<le> k \<and> k < 32768"
  by (induction raw rule: int16s.induct) (auto simp: int16_le_range)

lemma int16s_take_even: "int16s (take (2 * (length xs div 2)) xs) = int16s xs"
  by (induction xs rule: int16s.induct) simp_all

lemma samples_exact:
  "map (\<lambda>k. fl32 (fl32 (of_int k) / 32768)) (int16s raw)
     = map (\<lambda>k. of_int k / 32768) (int16s raw)"
  by (rule map_cong [OF refl]) (simp add: fl32_sample int16s_range)

lemma samples_in_unit_interval:
  assumes "x \<in> set (map (\<lambda>k. of_int k / 32768) (int16s raw))"
  shows "- 1 \<le> x \<and> x \<le> (1::rat)"
proof -
  from assms obtain k where k: "k \<in> set (int16s raw)" and x: "x = of_int k / 32768"
    by auto
  from int16s_range [OF k] have "- 32768 \<le> (of_int k :: rat)" "(of_int k :: rat) \<le> 32768"
    by (simp_all add: of_int_le_iff [symmetric] del: of_int_le_iff)
  then show ?thesis
    by (simp add: x field_simps)
qed

lemma wav_bytes_to_float_np_image:
  assumes "0 \<le> sr" and "sr < 4294967296" and "int (length pcm) + 36 < 4294967296"
  shows "wav_bytes_to_float_np (ascii ''RIFF'' @ le_bytes 4 (36 + int (length pcm))
          @ ascii ''WAVE'' @ ascii ''fmt '' @ le_bytes 4 16 @ le_bytes 2 1 @ le_bytes 2 1
          @ le_bytes 4 sr @ le_bytes 4 (sr * 2) @ le_bytes 2 2 @ le_bytes 2 16 @ ascii ''data''
          @ le_bytes 4 (int (length pcm)) @ pcm)
     = Inr (map (\<lambda>k. of_int k / 32768) (int16s pcm), nat sr)"
proof -
  let ?wav = "ascii ''RIFF'' @ le_bytes 4 (36 + int (length pcm)) @ ascii ''WAVE''
          @ ascii ''fmt '' @ le_bytes 4 16 @ le_bytes 2 1 @ le_bytes 2 1 @ le_bytes 4 sr
          @ le_bytes 4 (sr * 2) @ le_bytes 2 2 @ le_bytes 2 16 @ ascii ''data''
          @ le_bytes 4 (int (length pcm)) @ pcm"
  let ?raw = "take (2 * (length pcm div 2)) pcm"
  define w where "w = \<lparr>w_fmt = \<lparr>f_nchannels = 1, f_sampwidth = 2,
          f_framerate = nat sr, f_framesize = 2\<rparr>,
          w_nframes = length pcm div 2,
          w_data_chunk = \<lparr>chunkname = ascii ''data'', chunksize = length pcm, size_read = 0\<rparr>,
          w_file = \<lparr>r_body = ascii ''WAVE''
              @ ascii ''fmt '' @ le_bytes 4 16 @ le_bytes 2 1 @ le_bytes 2 1 @ le_bytes 4 sr
              @ le_bytes 4 (sr * 2) @ le_bytes 2 2 @ le_bytes 2 16 @ ascii ''data''
              @ le_bytes 4 (int (length pcm)) @ pcm,
            r_chunksize = 36 + length pcm, r_size_read = 36\<rparr>\<rparr>"
  have opn: "wave_open ?wav = Inr w"
    unfolding w_def using assms by (intro wave_open_image) simp_all
  have rf: "readframes w (length pcm div 2) = ?raw"
    unfolding w_def by (rule readframes_image)
  have w: "f_nchannels (w_fmt w) = 1" "f_sampwidth (w_fmt w) = 2"
    "f_framerate (w_fmt w) = nat sr" "w_nframes w = length pcm div 2"
    by (simp_all add: w_def)
  have "2 * (length pcm div 2) \<le> length pcm"
    by simp
  then have "length ?raw = 2 * (length pcm div 2)"
    by (simp only: length_take min_absorb2)
  then have ev: "even (length ?raw)"
    by simp
  then show ?thesis
    by (simp add: wav_bytes_to_float_np_def opn w rf Let_def frombuffer_int16_def
        int16s_take_even samples_exact del: length_take)
qed

text \<open>
  Claim C1, as amended. For a sample rate \<open>0 < sr < 2\<^sup>3\<^sup>1\<close> and a buffer of less than
  \<open>2\<^sup>3\<^sup>2 - 36\<close> bytes, \<^verbatim>\<open>pcm16_to_wav_bytes\<close> returns a file that
  \<^verbatim>\<open>wav_bytes_to_float_np\<close> decodes to the little-endian 16-bit samples of the buffer,
  each divided by 32768 (exactly: the float operations do not round here), with the
  rate \<open>sr\<close>. (A last odd byte is not part of a sample and is dropped.)
\<close>

theorem wav_roundtrip:
  assumes "0 < sr" and "sr < 2147483648" and "int (length pcm) + 36 < 4294967296"
  shows "\<exists>wav. pcm16_to_wav_bytes pcm sr = Inr wav
     \<and> wav_bytes_to_float_np wav = Inr (map (\<lambda>k. of_int k / 32768) (int16s pcm), nat sr)"
proof -
  have "pcm16_to_wav_bytes pcm sr = Inr (ascii ''RIFF'' @ le_bytes 4 (36 + int (length pcm))
          @ ascii ''WAVE'' @ ascii ''fmt '' @ le_bytes 4 16 @ le_bytes 2 1 @ le_bytes 2 1
          @ le_bytes 4 sr @ le_bytes 4 (sr * 2) @ le_bytes 2 2 @ le_bytes 2 16 @ ascii ''data''
          @ le_bytes 4 (int (length pcm)) @ pcm)"
    using assms by (rule pcm16_to_wav_bytes_image)
  moreover have "wav_bytes_to_float_np (ascii ''RIFF'' @ le_bytes 4 (36 + int (length pcm))
          @ ascii ''WAVE'' @ ascii ''fmt '' @ le_bytes 4 16 @ le_bytes 2 1 @ le_bytes 2 1
          @ le_bytes 4 sr @ le_bytes 4 (sr * 2) @ le_bytes 2 2 @ le_bytes 2 16 @ ascii ''data''
          @ le_bytes 4 (int (length pcm)) @ pcm)
     = Inr (map (\<lambda>k. of_int k / 32768) (int16s pcm), nat sr)"
    using assms by (intro wav_bytes_to_float_np_image) simp_all
  ultimately show ?thesis by blast
qed

text \<open>The theorem at the two samples 16384 and -1, at 16000 Hz.\<close>

theorem wav_roundtrip_witness:
  "(0::int) < 16000 \<and> (16000::int) < 2147483648
   \<and> int (length [0x00, 0x40, 0xFF, 0xFF :: byte]) + 36 < 4294967296
   \<and> (\<exists>wav. pcm16_to_wav_bytes [0x00, 0x40, 0xFF, 0xFF] 16000 = Inr wav
        \<and> wav_bytes_to_float_np wav = Inr ([1 / 2, - 1 / 32768], 16000))"
proof -
  have h1: "(0::int) < 16000" by simp
  have h2: "(16000::int) < 2147483648" by simp
  have h3: "int (length [0x00, 0x40, 0xFF, 0xFF :: byte]) + 36 < 4294967296" by simp
  have s: "map (\<lambda>k. of_int k / 32768) (int16s [0x00, 0x40, 0xFF, 0xFF]) = [1 / 2, - 1 / 32768 :: rat]"
    by (simp add: int16_le_def)
  from wav_roundtrip [OF h1 h2 h3] show ?thesis
    unfolding s by simp
qed

text \<open>
  Claim C1 as stated fails for a sample rate from \<open>2\<^sup>3\<^sup>1\<close> on: the byte rate
  \<open>2 * sr\<close> does not fit the 32-bit header field, and writing the header raises
  \<^verbatim>\<open>struct.error\<close>.
\<close>

theorem wav_roundtrip_rate_counterexample:
  "pcm16_to_wav_bytes [0x00, 0x40] 2147483648 = Inl StructError"
  by (simp add: pcm16_to_wav_bytes_def write_header_def pack_uint_def Let_def)

lemma le_bytes_numeral: "le_bytes (numeral n) v = word_of_int v # le_bytes (pred_numeral n) (v div 256)"
  by (simp add: numeral_eq_Suc)

lemmas wave_eval = wave_open_def ascii_def Let_def riff_read_def chunk_loop.simps chunk_step_def
      new_chunk_def chunk_read_def read_fmt_chunk_def chunk_skip_def riff_seek_cur_def
      WAVE_FORMAT_PCM_def le_bytes_numeral readframes_def

text \<open>
  A file whose format tag is not \<^verbatim>\<open>WAVE_FORMAT_PCM\<close> is not parsed: here the tag
  \<open>0xFFFE\<close> of the extensible format, on an otherwise mono 16-bit header.
\<close>

lemma wave_open_extensible:
  "wave_open (ascii ''RIFF'' @ le_bytes 4 38 @ ascii ''WAVE''
          @ ascii ''fmt '' @ le_bytes 4 16 @ le_bytes 2 0xFFFE @ le_bytes 2 1 @ le_bytes 4 16000
          @ le_bytes 4 32000 @ le_bytes 2 2 @ le_bytes 2 16 @ ascii ''data''
          @ le_bytes 4 2 @ [0x00, 0x40]) = Inl (WaveError ''unknown format'')"
  by (simp add: wave_eval)

lemma readframes_empty_chunk: "chunksize (w_data_chunk w) = 0 \<Longrightarrow> readframes w n = []"
  by (simp add: readframes_def chunk_read_def)

text \<open>
  Claim C7, as amended. For a file that \<^verbatim>\<open>wave.open\<close> parses,
  \<^verbatim>\<open>wav_bytes_to_float_np\<close> raises the format error (status 400) exactly when the
  channel count is not 1 or the sample width is not 2 bytes. Otherwise, when the frame
  bytes it reads are whole 16-bit samples (an even number of bytes), it returns the
  samples divided by 32768, each in \<open>[-1, 1]\<close>, with the declared rate; and a data
  chunk of length 0 gives the empty sample list with the declared rate.
\<close>

theorem wav_bytes_to_float_np_parsed:
  assumes "wave_open wav = Inr w"
  shows "(wav_bytes_to_float_np wav = Inl (HTTPException 400 ''Expect mono 16-bit WAV'')
            \<longleftrightarrow> f_nchannels (w_fmt w) \<noteq> 1 \<or> f_sampwidth (w_fmt w) \<noteq> 2)
     \<and> (f_nchannels (w_fmt w) = 1 \<and> f_sampwidth (w_fmt w) = 2
          \<and> even (length (readframes w (w_nframes w)))
        \<longrightarrow> wav_bytes_to_float_np wav
              = Inr (map (\<lambda>k. of_int k / 32768) (int16s (readframes w (w_nframes w))),
                     f_framerate (w_fmt w))
            \<and> (\<forall>x \<in> set (map (\<lambda>k. of_int k / 32768) (int16s (readframes w (w_nframes w)))).
                  - 1 \<le> x \<and> x \<le> (1::rat)))
     \<and> (f_nchannels (w_fmt w) = 1 \<and> f_sampwidth (w_fmt w) = 2
          \<and> chunksize (w_data_chunk w) = 0
        \<longrightarrow> wav_bytes_to_float_np wav = Inr ([], f_framerate (w_fmt w)))"
proof (intro conjI impI)
  show "wav_bytes_to_float_np wav = Inl (HTTPException 400 ''Expect mono 16-bit WAV'')
      \<longleftrightarrow> f_nchannels (w_fmt w) \<noteq> 1 \<or> f_sampwidth (w_fmt w) \<noteq> 2"
    using assms
    by (simp add: wav_bytes_to_float_np_def Let_def frombuffer_int16_def split: sum.split)
next
  assume a: "f_nchannels (w_fmt w) = 1 \<and> f_sampwidth (w_fmt w) = 2
          \<and> even (length (readframes w (w_nframes w)))"
  with assms show "wav_bytes_to_float_np wav
      = Inr (map (\<lambda>k. of_int k / 32768) (int16s (readframes w (w_nframes w))),
             f_framerate (w_fmt w))"
    by (simp add: wav_bytes_to_float_np_def Let_def frombuffer_int16_def samples_exact)
  show "\<forall>x \<in> set (map (\<lambda>k. of_int k / 32768) (int16s (readframes w (w_nframes w)))).
      - 1 \<le> x \<and> x \<le> (1::rat)"
    using samples_in_unit_interval by blast
next
  assume "f_nchannels (w_fmt w) = 1 \<and> f_sampwidth (w_fmt w) = 2
          \<and> chunksize (w_data_chunk w) = 0"
  with assms show "wav_bytes_to_float_np wav = Inr ([], f_framerate (w_fmt w))"
    by (simp add: wav_bytes_to_float_np_def Let_def frombuffer_int16_def
        readframes_empty_chunk)
qed

text \<open>The theorem at a mono 16-bit file of 8000 Hz whose data chunk is empty.\<close>

theorem wav_bytes_to_float_np_parsed_witness:
  "wave_open (ascii ''RIFF'' @ le_bytes 4 36 @ ascii ''WAVE''
          @ ascii ''fmt '' @ le_bytes 4 16 @ le_bytes 2 1 @ le_bytes 2 1 @ le_bytes 4 8000
          @ le_bytes 4 16000 @ le_bytes 2 2 @ le_bytes 2 16 @ ascii ''data'' @ le_bytes 4 0)
     = Inr \<lparr>w_fmt = \<lparr>f_nchannels = 1, f_sampwidth = 2, f_framerate = 8000, f_framesize = 2\<rparr>,
          w_nframes = 0,
          w_data_chunk = \<lparr>chunkname = ascii ''data'', chunksize = 0, size_read = 0\<rparr>,
          w_file = \<lparr>r_body = ascii ''WAVE''
              @ ascii ''fmt '' @ le_bytes 4 16 @ le_bytes 2 1 @ le_bytes 2 1 @ le_bytes 4 8000
              @ le_bytes 4 16000 @ le_bytes 2 2 @ le_bytes 2 16 @ ascii ''data'' @ le_bytes 4 0,
            r_chunksize = 36, r_size_read = 36\<rparr>\<rparr>
   \<and> wav_bytes_to_float_np (ascii ''RIFF'' @ le_bytes 4 36 @ ascii ''WAVE''
          @ ascii ''fmt '' @ le_bytes 4 16 @ le_bytes 2 1 @ le_bytes 2 1 @ le_bytes 4 8000
          @ le_bytes 4 16000 @ le_bytes 2 2 @ le_bytes 2 16 @ ascii ''data'' @ le_bytes 4 0)
     = Inr ([], 8000)"
proof -
  have opn: "wave_open (ascii ''RIFF'' @ le_bytes 4 36 @ ascii ''WAVE''
          @ ascii ''fmt '' @ le_bytes 4 16 @ le_bytes 2 1 @ le_bytes 2 1 @ le_bytes 4 8000
          @ le_bytes 4 16000 @ le_bytes 2 2 @ le_bytes 2 16 @ ascii ''data'' @ le_bytes 4 0)
     = Inr \<lparr>w_fmt = \<lparr>f_nchannels = 1, f_sampwidth = 2, f_framerate = 8000, f_framesize = 2\<rparr>,
          w_nframes = 0,
          w_data_chunk = \<lparr>chunkname = ascii ''data'', chunksize = 0, size_read = 0\<rparr>,
          w_file = \<lparr>r_body = ascii ''WAVE''
              @ ascii ''fmt '' @ le_bytes 4 16 @ le_bytes 2 1 @ le_bytes 2 1 @ le_bytes 4 8000
              @ le_bytes 4 16000 @ le_bytes 2 2 @ le_bytes 2 16 @ ascii ''data'' @ le_bytes 4 0,
            r_chunksize = 36, r_size_read = 36\<rparr>\<rparr>"
    by (simp add: wave_eval)
  from wav_bytes_to_float_np_parsed [OF opn] show ?thesis
    using opn by simp
qed

text \<open>
  Claim C7 as stated fails on a truncated file: the header declares a mono 16-bit data
  chunk of 4 bytes, the file ends after 3 of them. \<^verbatim>\<open>wave.open\<close> parses it,
  \<^verbatim>\<open>readframes\<close> returns the 3 bytes, and \<^verbatim>\<open>np.frombuffer\<close> raises
  \<^verbatim>\<open>ValueError\<close>: neither the format error nor a sample list.
\<close>

theorem wav_bytes_to_float_np_truncated_counterexample:
  "(\<exists>w. wave_open (ascii ''RIFF'' @ le_bytes 4 40 @ ascii ''WAVE''
          @ ascii ''fmt '' @ le_bytes 4 16 @ le_bytes 2 1 @ le_bytes 2 1 @ le_bytes 4 16000
          @ le_bytes 4 32000 @ le_bytes 2 2 @ le_bytes 2 16 @ ascii ''data''
          @ le_bytes 4 4 @ [1, 2, 3]) = Inr w
        \<and> f_nchannels (w_fmt w) = 1 \<and> f_sampwidth (w_fmt w) = 2)
   \<and> wav_bytes_to_float_np (ascii ''RIFF'' @ le_bytes 4 40 @ ascii ''WAVE''
          @ ascii ''fmt '' @ le_bytes 4 16 @ le_bytes 2 1 @ le_bytes 2 1 @ le_bytes 4 16000
          @ le_bytes 4 32000 @ le_bytes 2 2 @ le_bytes 2 16 @ ascii ''data''
          @ le_bytes 4 4 @ [1, 2, 3]) = Inl ValueError"
  by (simp add: wav_bytes_to_float_np_def frombuffer_int16_def wave_eval)

section \<open>The HTTP endpoint: proofs\<close>

lemma run_whisper_format_error:
  assumes "wave_open content = Inr w"
    and "f_nchannels (w_fmt w) \<noteq> 1 \<or> f_sampwidth (w_fmt w) \<noteq> 2"
  shows "run_whisper (Inr model) content = Inl (HTTPException 400 ''Expect mono 16-bit WAV'')"
  using assms by (auto simp: run_whisper_def wav_bytes_to_float_np_def)

lemma assign_speakers_speaker_set:
  "list_all (\<lambda>s. seg_speaker s \<noteq> None) (assign_speakers stt spk)"
  by (simp add: assign_speakers_def assign_one_def list_all_iff split: option.split)

text \<open>
  Claim C9, as amended. \<^verbatim>\<open>POST /transcribe\<close> answers 400 for an empty upload, and
  also 400 (the \<^verbatim>\<open>HTTPException\<close> is raised again as it is) for an upload that parses as
  a WAV file which is not mono 16-bit; 500 with \<^verbatim>\<open>str(e)\<close> as detail for any other
  exception \<open>e\<close> of the recognition; and otherwise 200 with the recognition segments,
  in their order, each with its start, end and text and with a speaker.
\<close>

theorem transcribe_responses:
  "(content = [] \<longrightarrow>
      transcribe get_whisper content = ErrorResponse 400 (Detail ''Empty audio''))
   \<and> (content \<noteq> [] \<and> get_whisper = Inr model \<and> wave_open content = Inr w
        \<and> (f_nchannels (w_fmt w) \<noteq> 1 \<or> f_sampwidth (w_fmt w) \<noteq> 2) \<longrightarrow>
      transcribe get_whisper content = ErrorResponse 400 (Detail ''Expect mono 16-bit WAV''))
   \<and> (content \<noteq> [] \<and> run_whisper get_whisper content = Inl e
        \<and> (\<forall>code d. e \<noteq> HTTPException code d) \<longrightarrow>
      transcribe get_whisper content = ErrorResponse 500 (StrOf e))
   \<and> (content \<noteq> [] \<and> run_whisper get_whisper content = Inr stt \<longrightarrow>
      transcribe get_whisper content
        = JSONResponse (assign_speakers stt (run_diarization content))
      \<and> status_code (transcribe get_whisper content) = 200
      \<and> list_all (\<lambda>s. seg_speaker s \<noteq> None) (assign_speakers stt (run_diarization content))
      \<and> map seg_start (assign_speakers stt (run_diarization content)) = map seg_start stt
      \<and> map seg_end (assign_speakers stt (run_diarization content)) = map seg_end stt
      \<and> map seg_text (assign_speakers stt (run_diarization content)) = map seg_text stt)"
proof (intro conjI impI)
  show "transcribe get_whisper content = ErrorResponse 400 (Detail ''Empty audio'')"
    if "content = []"
    using that by (simp add: transcribe_def)
next
  assume "content \<noteq> [] \<and> get_whisper = Inr model \<and> wave_open content = Inr w
        \<and> (f_nchannels (w_fmt w) \<noteq> 1 \<or> f_sampwidth (w_fmt w) \<noteq> 2)"
  then show "transcribe get_whisper content
      = ErrorResponse 400 (Detail ''Expect mono 16-bit WAV'')"
    using run_whisper_format_error [of content w model]
    by (simp add: transcribe_def)
next
  assume "content \<noteq> [] \<and> run_whisper get_whisper content = Inl e
        \<and> (\<forall>code d. e \<noteq> HTTPException code d)"
  then show "transcribe get_whisper content = ErrorResponse 500 (StrOf e)"
    by (cases e) (simp_all add: transcribe_def)
next
  assume a: "content \<noteq> [] \<and> run_whisper get_whisper content = Inr stt"
  then show t: "transcribe get_whisper content
      = JSONResponse (assign_speakers stt (run_diarization content))"
    by (simp add: transcribe_def)
  then show "status_code (transcribe get_whisper content) = 200"
    by simp
  show "list_all (\<lambda>s. seg_speaker s \<noteq> None) (assign_speakers stt (run_diarization content))"
    by (rule assign_speakers_speaker_set)
  show "map seg_start (assign_speakers stt (run_diarization content)) = map seg_start stt"
    "map seg_end (assign_speakers stt (run_diarization content)) = map seg_end stt"
    "map seg_text (assign_speakers stt (run_diarization content)) = map seg_text stt"
    by (simp_all add: assign_speakers_def comp_def assign_one_frame)
qed

lemma stereo_open:
  "wave_open (ascii ''RIFF'' @ le_bytes 4 40 @ ascii ''WAVE''
          @ ascii ''fmt '' @ le_bytes 4 16 @ le_bytes 2 1 @ le_bytes 2 2 @ le_bytes 4 16000
          @ le_bytes 4 64000 @ le_bytes 2 4 @ le_bytes 2 16 @ ascii ''data''
          @ le_bytes 4 4 @ [1, 2, 3, 4])
     = Inr \<lparr>w_fmt = \<lparr>f_nchannels = 2, f_sampwidth = 2, f_framerate = 16000, f_framesize = 4\<rparr>,
          w_nframes = 1,
          w_data_chunk = \<lparr>chunkname = ascii ''data'', chunksize = 4, size_read = 0\<rparr>,
          w_file = \<lparr>r_body = ascii ''WAVE''
              @ ascii ''fmt '' @ le_bytes 4 16 @ le_bytes 2 1 @ le_bytes 2 2 @ le_bytes 4 16000
              @ le_bytes 4 64000 @ le_bytes 2 4 @ le_bytes 2 16 @ ascii ''data''
              @ le_bytes 4 4 @ [1, 2, 3, 4],
            r_chunksize = 40, r_size_read = 36\<rparr>\<rparr>"
  by (simp add: wave_eval)

text \<open>
  An upload whose format tag is not \<^verbatim>\<open>WAVE_FORMAT_PCM\<close> is answered with 500: the
  \<^verbatim>\<open>wave.Error\<close> of the reader is not an \<^verbatim>\<open>HTTPException\<close>.
\<close>

lemma transcribe_extensible:
  "transcribe (Inr model) (ascii ''RIFF'' @ le_bytes 4 38 @ ascii ''WAVE''
          @ ascii ''fmt '' @ le_bytes 4 16 @ le_bytes 2 0xFFFE @ le_bytes 2 1 @ le_bytes 4 16000
          @ le_bytes 4 32000 @ le_bytes 2 2 @ le_bytes 2 16 @ ascii ''data''
          @ le_bytes 4 2 @ [0x00, 0x40])
     = ErrorResponse 500 (StrOf (WaveError ''unknown format''))"
proof -
  have "run_whisper (Inr model) (ascii ''RIFF'' @ le_bytes 4 38 @ ascii ''WAVE''
          @ ascii ''fmt '' @ le_bytes 4 16 @ le_bytes 2 0xFFFE @ le_bytes 2 1 @ le_bytes 4 16000
          @ le_bytes 4 32000 @ le_bytes 2 2 @ le_bytes 2 16 @ ascii ''data''
          @ le_bytes 4 2 @ [0x00, 0x40]) = Inl (WaveError ''unknown format'')"
    by (simp add: run_whisper_def wav_bytes_to_float_np_def wave_open_extensible)
  then show ?thesis
    by (simp add: transcribe_def ascii_def)
qed

text \<open>The theorem at a stereo file, and at the empty upload.\<close>

theorem transcribe_responses_witness:
  "transcribe (Inr (\<lambda>audio. Inr []))
      (ascii ''RIFF'' @ le_bytes 4 40 @ ascii ''WAVE''
          @ ascii ''fmt '' @ le_bytes 4 16 @ le_bytes 2 1 @ le_bytes 2 2 @ le_bytes 4 16000
          @ le_bytes 4 64000 @ le_bytes 2 4 @ le_bytes 2 16 @ ascii ''data''
          @ le_bytes 4 4 @ [1, 2, 3, 4])
     = ErrorResponse 400 (Detail ''Expect mono 16-bit WAV'')
   \<and> transcribe (Inr (\<lambda>audio. Inr [])) [] = ErrorResponse 400 (Detail ''Empty audio'')"
proof -
  let ?c = "ascii ''RIFF'' @ le_bytes 4 40 @ ascii ''WAVE''
          @ ascii ''fmt '' @ le_bytes 4 16 @ le_bytes 2 1 @ le_bytes 2 2 @ le_bytes 4 16000
          @ le_bytes 4 64000 @ le_bytes 2 4 @ le_bytes 2 16 @ ascii ''data''
          @ le_bytes 4 4 @ [1, 2, 3, 4]"
  let ?w = "\<lparr>w_fmt = \<lparr>f_nchannels = 2, f_sampwidth = 2, f_framerate = 16000, f_framesize = 4\<rparr>,
          w_nframes = 1,
          w_data_chunk = \<lparr>chunkname = ascii ''data'', chunksize = 4, size_read = 0\<rparr>,
          w_file = \<lparr>r_body = ascii ''WAVE''
              @ ascii ''fmt '' @ le_bytes 4 16 @ le_bytes 2 1 @ le_bytes 2 2 @ le_bytes 4 16000
              @ le_bytes 4 64000 @ le_bytes 2 4 @ le_bytes 2 16 @ ascii ''data''
              @ le_bytes 4 4 @ [1, 2, 3, 4],
            r_chunksize = 40, r_size_read = 36\<rparr>\<rparr>"
  let ?g = "Inr (\<lambda>audio. Inr []) :: exn + whisper_model"
  have ne: "?c \<noteq> []" by (simp add: ascii_def)
  have fmt: "f_nchannels (w_fmt ?w) \<noteq> 1 \<or> f_sampwidth (w_fmt ?w) \<noteq> 2" by simp
  have "?c \<noteq> [] \<and> ?g = Inr (\<lambda>audio. Inr []) \<and> wave_open ?c = Inr ?w
        \<and> (f_nchannels (w_fmt ?w) \<noteq> 1 \<or> f_sampwidth (w_fmt ?w) \<noteq> 2)"
    using ne stereo_open fmt by blast
  with transcribe_responses [where content = ?c and get_whisper = ?g
      and model = "\<lambda>audio. Inr []" and w = ?w, THEN conjunct2, THEN conjunct1]
  have "transcribe ?g ?c = ErrorResponse 400 (Detail ''Expect mono 16-bit WAV'')"
    by (rule mp)
  moreover from transcribe_responses [where content = "[]" and get_whisper = ?g, THEN conjunct1]
  have "transcribe ?g [] = ErrorResponse 400 (Detail ''Empty audio'')"
    by simp
  ultimately show ?thesis by simp
qed

text \<open>
  Claim C9 as stated fails: a non-empty upload, a well-formed stereo WAV file, is
  answered with 400, which the claim reserves for the empty upload (it is neither the
  500 of an internal failure nor 200).
\<close>

theorem transcribe_stereo_counterexample:
  "ascii ''RIFF'' @ le_bytes 4 40 @ ascii ''WAVE''
          @ ascii ''fmt '' @ le_bytes 4 16 @ le_bytes 2 1 @ le_bytes 2 2 @ le_bytes 4 16000
          @ le_bytes 4 64000 @ le_bytes 2 4 @ le_bytes 2 16 @ ascii ''data''
          @ le_bytes 4 4 @ [1, 2, 3, 4] \<noteq> []
   \<and> status_code (transcribe (Inr (\<lambda>audio. Inr []))
      (ascii ''RIFF'' @ le_bytes 4 40 @ ascii ''WAVE''
          @ ascii ''fmt '' @ le_bytes 4 16 @ le_bytes 2 1 @ le_bytes 2 2 @ le_bytes 4 16000
          @ le_bytes 4 64000 @ le_bytes 2 4 @ le_bytes 2 16 @ ascii ''data''
          @ le_bytes 4 4 @ [1, 2, 3, 4])) = 400"
proof -
  have "run_whisper (Inr (\<lambda>audio. Inr []))
      (ascii ''RIFF'' @ le_bytes 4 40 @ ascii ''WAVE''
          @ ascii ''fmt '' @ le_bytes 4 16 @ le_bytes 2 1 @ le_bytes 2 2 @ le_bytes 4 16000
          @ le_bytes 4 64000 @ le_bytes 2 4 @ le_bytes 2 16 @ ascii ''data''
          @ le_bytes 4 4 @ [1, 2, 3, 4])
      = Inl (HTTPException 400 ''Expect mono 16-bit WAV'')"
    by (rule run_whisper_format_error [OF stereo_open]) simp
  then show ?thesis
    by (simp add: transcribe_def ascii_def)
qed

section \<open>Resampling: proofs\<close>

lemma length_np_linspace [simp]: "length (np_linspace start stop num) = num"
  by (simp add: np_linspace_def Let_def)

lemma resample_result:
  assumes "audio \<noteq> []" and "0 < sr"
  shows "resample audio sr =
     (let n = py_int_of_float
                (fl64 (fl64 (of_nat (length audio) / of_nat sr) * of_nat TARGET_SAMPLE_RATE))
      in if n \<le> 0 then Inr None
         else Inr (Some (map fl32 (map (interp_at
                (np_linspace 0 (fl64 (of_nat (length audio) / of_nat sr)) (length audio)) audio)
                (np_linspace 0 (fl64 (of_nat (length audio) / of_nat sr)) (nat n))))))"
proof -
  have "np_linspace 0 (fl64 (of_nat (length audio) / of_nat sr)) (length audio) \<noteq> []"
    using assms(1) by (simp flip: length_greater_0_conv)
  with assms(2) show ?thesis
    by (simp add: resample_def np_interp_def Let_def)
qed

lemma fl64_16000: "fl64 16000 = 16000"
  using fl_exact [of 16000 53 0] by simp

text \<open>
  Claim C2, as amended. For a non-empty sample list at a rate \<open>sr > 0\<close>, the resampling
  step computes \<open>n = int(duration * 16000)\<close> with \<open>duration = len / sr\<close>, in floats and
  truncating: for \<open>n > 0\<close> it produces exactly \<open>n\<close> samples, and for \<open>n = 0\<close> none at
  all (\<^verbatim>\<open>run_whisper\<close> returns the empty list). 8000 samples at 8000 Hz give 16000
  samples.
\<close>

theorem resample_length:
  assumes "audio \<noteq> []" and "0 < sr"
  shows "(py_int_of_float (fl64 (fl64 (of_nat (length audio) / of_nat sr) * 16000)) \<le> 0
          \<longrightarrow> resample audio sr = Inr None)
     \<and> (0 < py_int_of_float (fl64 (fl64 (of_nat (length audio) / of_nat sr) * 16000))
          \<longrightarrow> (\<exists>y. resample audio sr = Inr (Some y)
                \<and> int (length y)
                  = py_int_of_float (fl64 (fl64 (of_nat (length audio) / of_nat sr) * 16000))))
     \<and> (length audio = 8000 \<and> sr = 8000
          \<longrightarrow> (\<exists>y. resample audio sr = Inr (Some y) \<and> length y = 16000))"
proof (intro conjI impI)
  let ?n = "py_int_of_float (fl64 (fl64 (of_nat (length audio) / of_nat sr) * 16000))"
  note r = resample_result [OF assms, unfolded TARGET_SAMPLE_RATE_def Let_def]
  show "resample audio sr = Inr None" if "?n \<le> 0"
    using that by (simp add: r)
  show "\<exists>y. resample audio sr = Inr (Some y) \<and> int (length y) = ?n" if "0 < ?n"
    using that by (simp add: r)
  show "\<exists>y. resample audio sr = Inr (Some y) \<and> length y = 16000"
    if "length audio = 8000 \<and> sr = 8000"
  proof -
    from that have "?n = 16000"
      by (simp add: fl64_one fl64_16000 py_int_of_float_def)
    then show ?thesis
      by (simp add: r)
  qed
qed

text \<open>The theorem at one second of silence at 8000 Hz.\<close>

theorem resample_length_witness:
  "replicate 8000 (0::rat) \<noteq> [] \<and> (0::nat) < 8000
   \<and> (\<exists>y. resample (replicate 8000 0) 8000 = Inr (Some y) \<and> length y = 16000)"
proof -
  have h1: "replicate 8000 (0::rat) \<noteq> []"
    by (simp flip: length_greater_0_conv)
  have h2: "(0::nat) < 8000" by simp
  from resample_length [OF h1 h2, THEN conjunct2, THEN conjunct2]
  have "\<exists>y. resample (replicate 8000 0) 8000 = Inr (Some y) \<and> length y = 16000"
    by simp
  with h1 h2 show ?thesis by blast
qed

lemma trunc_5_at_44100: "py_int_of_float (fl64 (fl64 (1 / 8820) * 16000)) = 1"
  by code_simp

lemma round_5_at_44100: "round_half_even (fl64 (fl64 (1 / 8820) * 16000)) = 2"
  by code_simp

text \<open>
  Claim C2 as stated fails: for 5 samples at 44100 Hz, \<open>duration * 16000\<close> is about
  1.814, which rounds to 2; the code truncates and produces 1 sample.
\<close>

theorem resample_round_counterexample:
  "(\<exists>y. resample [0, 0, 0, 0, 0] 44100 = Inr (Some y) \<and> length y = 1)
   \<and> round_half_even (fl64 (fl64 (of_nat (length [0, 0, 0, 0, 0 :: rat]) / of_nat 44100)
        * of_nat TARGET_SAMPLE_RATE)) = 2"
proof -
  have n: "py_int_of_float (fl64 (fl64 (of_nat (length [0, 0, 0, 0, 0 :: rat]) / of_nat 44100)
      * of_nat TARGET_SAMPLE_RATE)) = 1"
    by (simp add: TARGET_SAMPLE_RATE_def trunc_5_at_44100)
  have "\<exists>y. resample [0, 0, 0, 0, 0] 44100 = Inr (Some y) \<and> length y = 1"
    by (subst resample_result) (simp_all only: Let_def n, simp_all)
  then show ?thesis
    by (simp add: TARGET_SAMPLE_RATE_def round_5_at_44100)
qed

section \<open>The WebSocket endpoint: proofs\<close>

lemma finalize_Inr:
  "finalize get_whisper st = Inr m \<Longrightarrow>
     \<exists>wav stt. pcm16_to_wav_bytes (buffer st) (current_sr st) = Inr wav
       \<and> run_whisper get_whisper wav = Inr stt
       \<and> m = \<lparr>msg_type = ''final'',
               msg_payload = Segments (assign_speakers stt (run_diarization wav))\<rparr>"
  by (auto simp: finalize_def Let_def split: sum.splits)

lemma finalize_type: "finalize get_whisper st = Inr m \<Longrightarrow> msg_type m = ''final''"
  by (auto dest: finalize_Inr)

lemma on_exception_sent:
  "length (sent (on_exception c e)) \<le> 1
   \<and> (\<forall>m \<in> set (sent (on_exception c e)). msg_type m = ''error'')
   \<and> state (on_exception c e) = Ended"
  by (simp add: on_exception_def)

lemma is_end_nonempty: "is_end text \<Longrightarrow> text \<noteq> []"
  by (auto simp: is_end_def)

lemma end_frame:
  assumes "is_end text" and "\<not> sublist ''sampleRate'' text" and "b = None \<or> b = Some []"
  shows "ws_loop get_whisper py alive st (Receive b (Some text) # events) =
     (case finalize get_whisper st of
        Inl e \<Rightarrow> on_exception alive e
      | Inr m \<Rightarrow> if alive then \<lparr>sent = [m], state = Ended\<rparr> else \<lparr>sent = [], state = Ended\<rparr>)"
  using assms is_end_nonempty [OF assms(1)]
  by (auto simp: Let_def on_exception_def split: sum.splits)

lemma ws_loop_sent:
  "length (sent (ws_loop get_whisper py alive st events)) \<le> 1
   \<and> (\<forall>m \<in> set (sent (ws_loop get_whisper py alive st events)).
         msg_type m = ''final'' \<or> msg_type m = ''error'')"
proof (induction get_whisper py alive st events rule: ws_loop.induct)
  case (1 get_whisper py alive st)
  show ?case by simp
next
  case (2 get_whisper py alive st e events)
  show ?case using on_exception_sent [of False e] by simp
next
  case (3 get_whisper py alive st e events)
  show ?case using on_exception_sent [of True e] by simp
next
  case (4 get_whisper py alive st b t events)
  show ?case
  proof (cases "finalize get_whisper st")
    case (Inl e)
    with 4 on_exception_sent [of alive e] show ?thesis
      by (auto simp: Let_def)
  next
    case (Inr m)
    with 4 finalize_type [OF Inr] on_exception_sent [of False RuntimeError] show ?thesis
      by (auto simp: Let_def)
  qed
qed

lemma ws_loop_append:
  "ws_loop get_whisper py alive st pre = \<lparr>sent = [], state = Streaming st'\<rparr> \<Longrightarrow>
     ws_loop get_whisper py alive st (pre @ post) = ws_loop get_whisper py alive st' post"
proof (induction get_whisper py alive st pre rule: ws_loop.induct)
  case (1 get_whisper py alive st)
  then show ?case by simp
next
  case (2 get_whisper py alive st e events)
  then show ?case by (simp add: on_exception_def split: if_splits)
next
  case (3 get_whisper py alive st e events)
  then show ?case by (simp add: on_exception_def split: if_splits)
next
  case (4 get_whisper py alive st b t events)
  then show ?case
    by (auto simp: Let_def on_exception_def split: sum.splits if_splits)
qed


lemma sublist_imp_nonempty: "sublist (x # xs) text \<Longrightarrow> text \<noteq> []"
  by auto

text \<open>
  Claim C4, as amended. In a streaming session, a text frame that is \<^verbatim>\<open>end\<close> or that
  contains the characters \<^verbatim>\<open>"type":"end"\<close> (with no space), and that does not contain
  \<^verbatim>\<open>sampleRate\<close>, ends the session with the final processing: the buffer is wrapped
  as WAV at the current rate, recognition runs on it, then diarization, then the
  speaker assignment, and when no step raises the one message
  \<^verbatim>\<open>{"type": "final", "segments": ...}\<close> is sent; when the wrapping or the recognition
  raises, the one message sent is \<^verbatim>\<open>{"type": "error", ...}\<close> instead.
\<close>

theorem end_of_stream_finalizes:
  assumes "text = ''end'' \<or> sublist ''\"type\":\"end\"'' text"
    and "\<not> sublist ''sampleRate'' text"
    and "b = None \<or> b = Some []"
  shows "(pcm16_to_wav_bytes (buffer st) (current_sr st) = Inr wav
          \<and> run_whisper get_whisper wav = Inr stt \<and> alive \<longrightarrow>
        ws_loop get_whisper py alive st (Receive b (Some text) # events)
          = \<lparr>sent = [\<lparr>msg_type = ''final'',
                      msg_payload = Segments (assign_speakers stt (run_diarization wav))\<rparr>],
             state = Ended\<rparr>)
     \<and> (pcm16_to_wav_bytes (buffer st) (current_sr st) = Inl e
          \<and> e \<noteq> WebSocketDisconnect \<and> alive \<longrightarrow>
        ws_loop get_whisper py alive st (Receive b (Some text) # events)
          = \<lparr>sent = [\<lparr>msg_type = ''error'', msg_payload = ErrorDetail e\<rparr>], state = Ended\<rparr>)
     \<and> (pcm16_to_wav_bytes (buffer st) (current_sr st) = Inr wav
          \<and> run_whisper get_whisper wav = Inl e \<and> e \<noteq> WebSocketDisconnect \<and> alive \<longrightarrow>
        ws_loop get_whisper py alive st (Receive b (Some text) # events)
          = \<lparr>sent = [\<lparr>msg_type = ''error'', msg_payload = ErrorDetail e\<rparr>], state = Ended\<rparr>)"
proof -
  from assms(1) have e: "is_end text"
    by (auto simp: is_end_def)
  note f = end_frame [OF e assms(2) assms(3)]
  show ?thesis
    unfolding f
    by (auto simp: finalize_def Let_def on_exception_def)
qed

lemma py_strip_hi: "py_strip '' hi '' = ''hi''"
  by (simp add: py_strip_def py_isspace_def)

text \<open>
  The theorem at a buffer of two samples and the token \<^verbatim>\<open>end\<close>, with an engine that
  yields one segment.
\<close>

theorem end_of_stream_finalizes_witness:
  "ws_loop (Inr (\<lambda>audio. Inr [\<lparr>rs_start = 0, rs_end = 1, rs_text = Some '' hi ''\<rparr>]))
      \<lparr>json_loads = (\<lambda>t. None), int_of_str = (\<lambda>s. None)\<rparr> True
      \<lparr>buffer = [0x00, 0x40, 0xFF, 0xFF], current_sr = 16000\<rparr> [Receive None (Some ''end'')]
     = \<lparr>sent = [\<lparr>msg_type = ''final'',
                 msg_payload = Segments [\<lparr>seg_start = 0, seg_end = 1, seg_text = ''hi'',
                                           seg_speaker = Some ''SPEAKER_00''\<rparr>]\<rparr>],
        state = Ended\<rparr>"
proof -
  let ?g = "Inr (\<lambda>audio. Inr [\<lparr>rs_start = 0, rs_end = 1, rs_text = Some '' hi ''\<rparr>])
    :: exn + whisper_model"
  let ?pcm = "[0x00, 0x40, 0xFF, 0xFF] :: bytes"
  let ?wav = "ascii ''RIFF'' @ le_bytes 4 (36 + int (length ?pcm)) @ ascii ''WAVE''
          @ ascii ''fmt '' @ le_bytes 4 16 @ le_bytes 2 1 @ le_bytes 2 1 @ le_bytes 4 16000
          @ le_bytes 4 (16000 * 2) @ le_bytes 2 2 @ le_bytes 2 16 @ ascii ''data''
          @ le_bytes 4 (int (length ?pcm)) @ ?pcm"
  let ?stt = "[\<lparr>seg_start = 0, seg_end = 1, seg_text = ''hi'', seg_speaker = None\<rparr>]"
  have h1: "''end'' = ''end'' \<or> sublist ''\"type\":\"end\"'' ''end''" by simp
  have h2: "\<not> sublist ''sampleRate'' ''end''"
    by (simp add: sublist_Cons_right)
  have h3: "(None :: bytes option) = None \<or> (None :: bytes option) = Some []" by simp
  have enc: "pcm16_to_wav_bytes ?pcm 16000 = Inr ?wav"
    by (rule pcm16_to_wav_bytes_image) simp_all
  have dec: "wav_bytes_to_float_np ?wav = Inr (map (\<lambda>k. of_int k / 32768) (int16s ?pcm), nat 16000)"
    by (rule wav_bytes_to_float_np_image) simp_all
  have rw: "run_whisper ?g ?wav = Inr ?stt"
    unfolding run_whisper_def dec
    by (simp add: TARGET_SAMPLE_RATE_def py_strip_hi)
  have asg: "assign_speakers ?stt (run_diarization ?wav)
      = [\<lparr>seg_start = 0, seg_end = 1, seg_text = ''hi'', seg_speaker = Some ''SPEAKER_00''\<rparr>]"
    by (simp add: assign_speakers_def run_diarization_def assign_one_def overlap.simps
        Let_def fl64_one)
  from end_of_stream_finalizes [OF h1 h2 h3,
      where st = "\<lparr>buffer = ?pcm, current_sr = 16000\<rparr>"
      and wav = ?wav and get_whisper = ?g and stt = ?stt and alive = True, THEN conjunct1]
    enc rw
  show ?thesis
    unfolding asg by simp
qed

text \<open>
  Claim C4 as stated fails for the JSON payload \<^verbatim>\<open>{"type": "end"}\<close>, written with a
  space after the colon: the handler compares characters and does not parse the frame,
  so the frame is ignored and the session goes on streaming.
\<close>

theorem end_payload_with_space_counterexample:
  "json_loads \<lparr>json_loads = (\<lambda>t. if t = ''{\"type\": \"end\"}''
                       then Some (JObject [(''type'', JString ''end'')]) else None),
       int_of_str = (\<lambda>s. None)\<rparr> ''{\"type\": \"end\"}''
     = Some (JObject [(''type'', JString ''end'')])
   \<and> ws (Inr (\<lambda>audio. Inr []))
      \<lparr>json_loads = (\<lambda>t. if t = ''{\"type\": \"end\"}''
                       then Some (JObject [(''type'', JString ''end'')]) else None),
       int_of_str = (\<lambda>s. None)\<rparr> True
      [Receive (Some [1, 2]) None, Receive None (Some ''{\"type\": \"end\"}'')]
     = \<lparr>sent = [], state = Streaming \<lparr>buffer = [1, 2], current_sr = 16000\<rparr>\<rparr>"
  by (simp add: ws_def is_end_def sublist_Cons_right)


text \<open>
  Claim C5, as amended. Over every sequence of events, the session sends at most one
  message, and never one of type \<^verbatim>\<open>partial\<close>. If the session is still streaming after
  the events \<open>pre\<close>, a disconnect that follows ends it with no message; an end-of-stream
  frame that follows, whose final processing gives the message \<open>m\<close> without raising,
  ends it with exactly that message, of type \<^verbatim>\<open>final\<close>, when the peer is still
  connected, and with no message when it is not.
\<close>

theorem ws_terminal_messages:
  "length (sent (ws get_whisper py alive events)) \<le> 1
   \<and> (\<forall>m \<in> set (sent (ws get_whisper py alive events)). msg_type m \<noteq> ''partial'')
   \<and> (ws get_whisper py alive pre = \<lparr>sent = [], state = Streaming st\<rparr> \<longrightarrow>
        ws get_whisper py alive (pre @ Closed e # post) = \<lparr>sent = [], state = Ended\<rparr>
        \<and> (is_end frame \<and> \<not> sublist ''sampleRate'' frame \<and> finalize get_whisper st = Inr m
             \<and> alive \<longrightarrow>
           ws get_whisper py alive (pre @ Receive None (Some frame) # post)
             = \<lparr>sent = [m], state = Ended\<rparr> \<and> msg_type m = ''final'')
        \<and> (is_end frame \<and> \<not> sublist ''sampleRate'' frame \<and> \<not> alive \<longrightarrow>
           ws get_whisper py alive (pre @ Receive None (Some frame) # post)
             = \<lparr>sent = [], state = Ended\<rparr>))"
proof (intro conjI impI)
  show "length (sent (ws get_whisper py alive events)) \<le> 1"
    using ws_loop_sent by (simp add: ws_def)
  show "\<forall>m \<in> set (sent (ws get_whisper py alive events)). msg_type m \<noteq> ''partial''"
    using ws_loop_sent [of get_whisper py alive "\<lparr>buffer = [], current_sr = 16000\<rparr>" events]
    by (auto simp: ws_def)
next
  assume pre: "ws get_whisper py alive pre = \<lparr>sent = [], state = Streaming st\<rparr>"
  then have app: "ws get_whisper py alive (pre @ post') = ws_loop get_whisper py alive st post'"
    for post'
    unfolding ws_def by (rule ws_loop_append)
  show "ws get_whisper py alive (pre @ Closed e # post) = \<lparr>sent = [], state = Ended\<rparr>"
    by (simp add: app on_exception_def)
  show "ws get_whisper py alive (pre @ Receive None (Some frame) # post)
      = \<lparr>sent = [m], state = Ended\<rparr>"
    if "is_end frame \<and> \<not> sublist ''sampleRate'' frame \<and> finalize get_whisper st = Inr m \<and> alive"
  proof -
    from that have f: "is_end frame" "\<not> sublist ''sampleRate'' frame"
      "finalize get_whisper st = Inr m" "alive" by simp_all
    show ?thesis
      unfolding app end_frame [OF f(1) f(2) disjI1 [OF refl]] f(3)
      using f(4) by simp
  qed
  show "msg_type m = ''final''"
    if "is_end frame \<and> \<not> sublist ''sampleRate'' frame \<and> finalize get_whisper st = Inr m \<and> alive"
    using that by (blast intro: finalize_type)
  show "ws get_whisper py alive (pre @ Receive None (Some frame) # post)
      = \<lparr>sent = [], state = Ended\<rparr>"
    if "is_end frame \<and> \<not> sublist ''sampleRate'' frame \<and> \<not> alive"
  proof -
    from that have f: "is_end frame" "\<not> sublist ''sampleRate'' frame" "\<not> alive"
      by simp_all
    show ?thesis
      unfolding app end_frame [OF f(1) f(2) disjI1 [OF refl]]
      using f(3) by (simp add: on_exception_def split: sum.split)
  qed
qed

text \<open>
  The theorem at a session that has received two bytes: followed by a disconnect, and
  followed by the token \<^verbatim>\<open>end\<close>.
\<close>

theorem ws_terminal_messages_witness:
  "ws (Inr (\<lambda>audio. Inr [])) \<lparr>json_loads = (\<lambda>t. None), int_of_str = (\<lambda>s. None)\<rparr> True
      [Receive (Some [0x00, 0x40]) None]
     = \<lparr>sent = [], state = Streaming \<lparr>buffer = [0x00, 0x40], current_sr = 16000\<rparr>\<rparr>
   \<and> ws (Inr (\<lambda>audio. Inr [])) \<lparr>json_loads = (\<lambda>t. None), int_of_str = (\<lambda>s. None)\<rparr> True
      ([Receive (Some [0x00, 0x40]) None] @ Closed WebSocketDisconnect # [Receive None (Some ''end'')])
     = \<lparr>sent = [], state = Ended\<rparr>
   \<and> ws (Inr (\<lambda>audio. Inr [])) \<lparr>json_loads = (\<lambda>t. None), int_of_str = (\<lambda>s. None)\<rparr> True
      ([Receive (Some [0x00, 0x40]) None] @ Receive None (Some ''end'') # [])
     = \<lparr>sent = [\<lparr>msg_type = ''final'', msg_payload = Segments []\<rparr>], state = Ended\<rparr>"
proof -
  let ?g = "Inr (\<lambda>audio. Inr []) :: exn + whisper_model"
  let ?py = "\<lparr>json_loads = (\<lambda>t. None), int_of_str = (\<lambda>s. None)\<rparr>"
  let ?pcm = "[0x00, 0x40] :: bytes"
  let ?st = "\<lparr>buffer = ?pcm, current_sr = 16000\<rparr>"
  let ?wav = "ascii ''RIFF'' @ le_bytes 4 (36 + int (length ?pcm)) @ ascii ''WAVE''
          @ ascii ''fmt '' @ le_bytes 4 16 @ le_bytes 2 1 @ le_bytes 2 1 @ le_bytes 4 16000
          @ le_bytes 4 (16000 * 2) @ le_bytes 2 2 @ le_bytes 2 16 @ ascii ''data''
          @ le_bytes 4 (int (length ?pcm)) @ ?pcm"
  have pre: "ws ?g ?py True [Receive (Some ?pcm) None] = \<lparr>sent = [], state = Streaming ?st\<rparr>"
    by (simp add: ws_def)
  have e: "is_end ''end''" by (simp add: is_end_def)
  have ns: "\<not> sublist ''sampleRate'' ''end''" by (simp add: sublist_Cons_right)
  have enc: "pcm16_to_wav_bytes ?pcm 16000 = Inr ?wav"
    by (rule pcm16_to_wav_bytes_image) simp_all
  have dec: "wav_bytes_to_float_np ?wav = Inr (map (\<lambda>k. of_int k / 32768) (int16s ?pcm), nat 16000)"
    by (rule wav_bytes_to_float_np_image) simp_all
  have rw: "run_whisper ?g ?wav = Inr []"
    unfolding run_whisper_def dec by (simp add: TARGET_SAMPLE_RATE_def)
  have fin: "finalize ?g ?st = Inr \<lparr>msg_type = ''final'', msg_payload = Segments []\<rparr>"
    using enc rw by (simp add: finalize_def assign_speakers_def run_diarization_def)
  note t = ws_terminal_messages [where get_whisper = ?g and py = ?py and alive = True
      and pre = "[Receive (Some ?pcm) None]" and st = ?st and frame = "''end''"
      and m = "\<lparr>msg_type = ''final'', msg_payload = Segments []\<rparr>"
      and e = WebSocketDisconnect and post = "[Receive None (Some ''end'')]",
      THEN conjunct2, THEN conjunct2, THEN mp, OF pre]
  note t' = ws_terminal_messages [where get_whisper = ?g and py = ?py and alive = True
      and pre = "[Receive (Some ?pcm) None]" and st = ?st and frame = "''end''"
      and m = "\<lparr>msg_type = ''final'', msg_payload = Segments []\<rparr>"
      and post = "[]",
      THEN conjunct2, THEN conjunct2, THEN mp, OF pre]
  from t have c: "ws ?g ?py True ([Receive (Some ?pcm) None] @ Closed WebSocketDisconnect
      # [Receive None (Some ''end'')]) = \<lparr>sent = [], state = Ended\<rparr>"
    by (rule conjunct1)
  from t' e ns fin have f: "ws ?g ?py True ([Receive (Some ?pcm) None]
      @ Receive None (Some ''end'') # [])
      = \<lparr>sent = [\<lparr>msg_type = ''final'', msg_payload = Segments []\<rparr>], state = Ended\<rparr>"
    by blast
  from pre c f show ?thesis by blast
qed

text \<open>
  Claim C5 as stated fails when the final processing raises: after a configuration
  message with the rate \<open>2\<^sup>3\<^sup>1\<close>, the end-of-stream token triggers the final processing,
  the WAV header cannot be written, and the one message sent is of type \<^verbatim>\<open>error\<close>:
  there is no \<^verbatim>\<open>final\<close> message.
\<close>

theorem ws_failed_finalization_counterexample:
  "ws (Inr (\<lambda>audio. Inr []))
      \<lparr>json_loads = (\<lambda>t. if t = ''{\"type\":\"config\",\"sampleRate\":2147483648}''
                       then Some (JObject [(''type'', JString ''config''),
                                           (''sampleRate'', JInt 2147483648)])
                       else None),
       int_of_str = (\<lambda>s. None)\<rparr> True
      [Receive None (Some ''{\"type\":\"config\",\"sampleRate\":2147483648}''),
       Receive (Some [0x00, 0x40]) None,
       Receive None (Some ''end'')]
     = \<lparr>sent = [\<lparr>msg_type = ''error'', msg_payload = ErrorDetail StructError\<rparr>],
        state = Ended\<rparr>"
proof -
  have "pcm16_to_wav_bytes [0x00, 0x40] 2147483648 = Inl StructError"
    by (simp add: pcm16_to_wav_bytes_def write_header_def pack_uint_def Let_def)
  then show ?thesis
    by (simp add: ws_def is_end_def sublist_Cons_right configure_def finalize_def
        on_exception_def)
qed


text \<open>
  Claim C6, as amended. A text frame that contains \<^verbatim>\<open>sampleRate\<close> never ends the
  session and never sends a message: the loop goes on, with the same buffer. The rate
  is unchanged when the frame is not parseable as JSON, when it is not an object, when
  its type is not \<^verbatim>\<open>config\<close>, when it has no \<^verbatim>\<open>sampleRate\<close> key, and when \<^verbatim>\<open>int()\<close>
  of the sample rate raises or is not positive. When \<^verbatim>\<open>int()\<close> of the sample rate of
  a config object is \<open>n > 0\<close>, the rate becomes \<open>n\<close>; so for a positive integer sample
  rate.
\<close>

theorem config_frame:
  assumes "sublist ''sampleRate'' frame" and "b = None \<or> b = Some []"
  shows "ws_loop get_whisper py alive st (Receive b (Some frame) # events)
        = ws_loop get_whisper py alive (configure py st frame) events
     \<and> buffer (configure py st frame) = buffer st
     \<and> (json_loads py frame = None \<longrightarrow> configure py st frame = st)
     \<and> ((\<forall>cfg. json_loads py frame \<noteq> Some (JObject cfg)) \<longrightarrow> configure py st frame = st)
     \<and> (json_loads py frame = Some (JObject cfg)
          \<and> map_of cfg ''type'' \<noteq> Some (JString ''config'') \<longrightarrow>
        configure py st frame = st)
     \<and> (json_loads py frame = Some (JObject cfg) \<and> map_of cfg ''sampleRate'' = None \<longrightarrow>
        configure py st frame = st)
     \<and> (json_loads py frame = Some (JObject cfg) \<and> map_of cfg ''sampleRate'' = Some v
          \<and> (py_int py v = None \<or> (\<exists>n. py_int py v = Some n \<and> n \<le> 0)) \<longrightarrow>
        configure py st frame = st)
     \<and> (json_loads py frame = Some (JObject cfg)
          \<and> map_of cfg ''type'' = Some (JString ''config'')
          \<and> map_of cfg ''sampleRate'' = Some v \<and> py_int py v = Some n \<and> 0 < n \<longrightarrow>
        configure py st frame = st\<lparr>current_sr := n\<rparr>)
     \<and> (json_loads py frame = Some (JObject cfg)
          \<and> map_of cfg ''type'' = Some (JString ''config'')
          \<and> map_of cfg ''sampleRate'' = Some (JInt n) \<and> 0 < n \<longrightarrow>
        configure py st frame = st\<lparr>current_sr := n\<rparr>)"
proof (intro conjI impI)
  from assms(1) have "frame \<noteq> []" by auto
  with assms show "ws_loop get_whisper py alive st (Receive b (Some frame) # events)
      = ws_loop get_whisper py alive (configure py st frame) events"
    by (auto simp: Let_def)
  show "buffer (configure py st frame) = buffer st"
    by (simp add: configure_def split: option.split json.split)
  show "configure py st frame = st" if "json_loads py frame = None"
    using that by (simp add: configure_def)
  show "configure py st frame = st" if "\<forall>cfg. json_loads py frame \<noteq> Some (JObject cfg)"
    using that by (simp add: configure_def split: option.split json.split)
  show "configure py st frame = st"
    if "json_loads py frame = Some (JObject cfg)
        \<and> map_of cfg ''type'' \<noteq> Some (JString ''config'')"
    using that by (simp add: configure_def)
  show "configure py st frame = st"
    if "json_loads py frame = Some (JObject cfg) \<and> map_of cfg ''sampleRate'' = None"
    using that by (simp add: configure_def)
  show "configure py st frame = st"
    if "json_loads py frame = Some (JObject cfg) \<and> map_of cfg ''sampleRate'' = Some v
        \<and> (py_int py v = None \<or> (\<exists>n. py_int py v = Some n \<and> n \<le> 0))"
    using that by (auto simp: configure_def)
  show "configure py st frame = st\<lparr>current_sr := n\<rparr>"
    if "json_loads py frame = Some (JObject cfg)
        \<and> map_of cfg ''type'' = Some (JString ''config'')
        \<and> map_of cfg ''sampleRate'' = Some v \<and> py_int py v = Some n \<and> 0 < n"
    using that by (simp add: configure_def)
  show "configure py st frame = st\<lparr>current_sr := n\<rparr>"
    if "json_loads py frame = Some (JObject cfg)
        \<and> map_of cfg ''type'' = Some (JString ''config'')
        \<and> map_of cfg ''sampleRate'' = Some (JInt n) \<and> 0 < n"
    using that by (simp add: configure_def)
qed

text \<open>
  The theorem at a session that receives a well-formed configuration for 48000 Hz, then
  a frame that is not JSON, then audio.
\<close>

theorem config_frame_witness:
  "ws_loop (Inr (\<lambda>audio. Inr []))
      \<lparr>json_loads = (\<lambda>t. if t = ''{\"type\":\"config\",\"sampleRate\":48000}''
                       then Some (JObject [(''type'', JString ''config''),
                                           (''sampleRate'', JInt 48000)])
                       else None),
       int_of_str = (\<lambda>s. None)\<rparr> True \<lparr>buffer = [], current_sr = 16000\<rparr>
      [Receive None (Some ''{\"type\":\"config\",\"sampleRate\":48000}''),
       Receive None (Some ''{sampleRate''),
       Receive (Some [1, 2]) None]
     = \<lparr>sent = [], state = Streaming \<lparr>buffer = [1, 2], current_sr = 48000\<rparr>\<rparr>"
proof -
  let ?py = "\<lparr>json_loads = (\<lambda>t. if t = ''{\"type\":\"config\",\"sampleRate\":48000}''
                       then Some (JObject [(''type'', JString ''config''),
                                           (''sampleRate'', JInt 48000)])
                       else None),
       int_of_str = (\<lambda>s. None)\<rparr>"
  let ?g = "Inr (\<lambda>audio. Inr []) :: exn + whisper_model"
  let ?cfg = "[(''type'', JString ''config''), (''sampleRate'', JInt 48000)]"
  have s1: "sublist ''sampleRate'' ''{\"type\":\"config\",\"sampleRate\":48000}''"
    by (simp add: sublist_Cons_right)
  have s2: "sublist ''sampleRate'' ''{sampleRate''"
    by (simp add: sublist_Cons_right)
  have n: "(None :: bytes option) = None \<or> (None :: bytes option) = Some []" by simp
  note c1 = config_frame [OF s1 n, where py = ?py and cfg = ?cfg and n = 48000
      and st = "\<lparr>buffer = [], current_sr = 16000\<rparr>" and get_whisper = ?g and alive = True]
  note c2 = config_frame [OF s2 n, where py = ?py
      and st = "\<lparr>buffer = [], current_sr = 48000\<rparr>" and get_whisper = ?g and alive = True]
  have u1: "configure ?py \<lparr>buffer = [], current_sr = 16000\<rparr>
      ''{\"type\":\"config\",\"sampleRate\":48000}'' = \<lparr>buffer = [], current_sr = 48000\<rparr>"
    using c1 by simp
  have u2: "configure ?py \<lparr>buffer = [], current_sr = 48000\<rparr> ''{sampleRate''
      = \<lparr>buffer = [], current_sr = 48000\<rparr>"
    using c2 by simp
  show ?thesis
    by (subst c1 [THEN conjunct1], subst u1, subst c2 [THEN conjunct1], subst u2) simp
qed

lemma py_int_of_8000_5: "py_int_of_float (16001 / 2) = 8000"
  by code_simp

text \<open>
  Claim C6 as stated fails for a sample rate that is not an integer: the code converts
  with \<^verbatim>\<open>int()\<close>, so the rate 8000.5 is not ignored and sets the rate to 8000.
\<close>

theorem config_float_rate_counterexample:
  "ws (Inr (\<lambda>audio. Inr []))
      \<lparr>json_loads = (\<lambda>t. if t = ''{\"type\":\"config\",\"sampleRate\":8000.5}''
                       then Some (JObject [(''type'', JString ''config''),
                                           (''sampleRate'', JFloat (16001 / 2))])
                       else None),
       int_of_str = (\<lambda>s. None)\<rparr> True
      [Receive None (Some ''{\"type\":\"config\",\"sampleRate\":8000.5}'')]
     = \<lparr>sent = [], state = Streaming \<lparr>buffer = [], current_sr = 8000\<rparr>\<rparr>"
  by (simp add: ws_def sublist_Cons_right configure_def py_int_of_8000_5)

end
